theory Spec2Isabelle
  imports Main "HOL-Library.AList" "HOL-Library.Sublist" "HOL-Library.Word"
begin

section \<open>JavaScript values\<close>

text \<open>
  The OAuth manager (\<^verbatim>\<open>OAuthManager\<close>, source file \<^verbatim>\<open>oauth.ts\<close>) reads its data from
  \<^verbatim>\<open>JSON.parse\<close> and \<^verbatim>\<open>response.json()\<close> and only asserts the TypeScript types
  (\<^verbatim>\<open>as OAuthSession\<close>): at run time a session, a token set or a metadata object is
  whatever JSON value arrived. The model therefore works on untyped values.

  Numbers are integers (milliseconds, seconds): fractions and magnitudes beyond
  \<open>2^53\<close> are outside the model. \<open>JNaN\<close> is the number NaN, which arithmetic on a
  non-numeric value produces. An object lists each key once, in insertion order.
\<close>

datatype jsval =
    JUndefined
  | JNull
  | JBool bool
  | JNaN
  | JNum int
  | JStr string
  | JArr "jsval list"
  | JObj "(string \<times> jsval) list"

datatype error =
    Error string  \<comment> \<open>\<^verbatim>\<open>new Error(message)\<close> thrown by the source\<close>
  | TypeError     \<comment> \<open>property read of undefined or null, invalid URL, failed fetch\<close>
  | SyntaxError   \<comment> \<open>a body that is not JSON\<close>

text \<open>Truthiness, as tested by \<^verbatim>\<open>if (v)\<close>, \<^verbatim>\<open>!v\<close>, \<^verbatim>\<open>a && b\<close> and \<^verbatim>\<open>c ? x : y\<close>.\<close>

fun truthy :: "jsval \<Rightarrow> bool" where
  "truthy JUndefined = False"
| "truthy JNull = False"
| "truthy (JBool b) = b"
| "truthy JNaN = False"
| "truthy (JNum n) = (n \<noteq> 0)"
| "truthy (JStr s) = (s \<noteq> [])"
| "truthy (JArr vs) = True"
| "truthy (JObj kvs) = True"

text \<open>
  The property read \<^verbatim>\<open>v.k\<close>: a TypeError on undefined and null, the field or undefined
  on an object. It is only used with the field names of this program
  (\<^verbatim>\<open>expiresAt\<close>, \<^verbatim>\<open>tokens\<close>, \<^verbatim>\<open>clientInfo\<close>, \<^verbatim>\<open>access_token\<close>, ...), none of which
  is a property of a boolean, number, string or array, so these yield undefined.
\<close>

fun get :: "jsval \<Rightarrow> string \<Rightarrow> error + jsval" where
  "get JUndefined k = Inl TypeError"
| "get JNull k = Inl TypeError"
| "get (JObj kvs) k = Inr (case map_of kvs k of None \<Rightarrow> JUndefined | Some v \<Rightarrow> v)"
| "get v k = Inr JUndefined"

text \<open>
  The assignment \<^verbatim>\<open>o.k = v\<close>: an existing key keeps its place, a new key goes last.
  The module is strict code, where the assignment to a property of a primitive throws.
  An array with an added named property has no representation here; the one assignment
  of the source (\<^verbatim>\<open>this.session.tokens = tokens\<close>) is reached only when
  \<^verbatim>\<open>this.session.expiresAt\<close> is truthy, so on an object.
\<close>

fun set_prop :: "jsval \<Rightarrow> string \<Rightarrow> jsval \<Rightarrow> error + jsval" where
  "set_prop (JObj kvs) k v = Inr (JObj (AList.update k v kvs))"
| "set_prop w k v = Inl TypeError"

text \<open>
  What \<^verbatim>\<open>JSON.parse(JSON.stringify(v))\<close> gives back: a field whose value is undefined is
  dropped, undefined in an array and NaN become null.
\<close>

fun jsonify :: "jsval \<Rightarrow> jsval"
  and jsonify_fields :: "(string \<times> jsval) list \<Rightarrow> (string \<times> jsval) list"
  and jsonify_items :: "jsval list \<Rightarrow> jsval list" where
  "jsonify (JObj kvs) = JObj (jsonify_fields kvs)"
| "jsonify (JArr vs) = JArr (jsonify_items vs)"
| "jsonify JNaN = JNull"
| "jsonify JUndefined = JNull"
| "jsonify JNull = JNull"
| "jsonify (JBool b) = JBool b"
| "jsonify (JNum n) = JNum n"
| "jsonify (JStr s) = JStr s"
| "jsonify_fields [] = []"
| "jsonify_fields ((k, v) # kvs) =
     (if v = JUndefined then jsonify_fields kvs else (k, jsonify v) # jsonify_fields kvs)"
| "jsonify_items [] = []"
| "jsonify_items (v # vs) = jsonify v # jsonify_items vs"

subsection \<open>The parts of the runtime that are taken as parameters\<close>

text \<open>
  \<open>coerce\<close> is the conversion to a number of a string, an array or an object (None is
  NaN); \<open>url_origin\<close> is \<^verbatim>\<open>new URL(s)\<close> followed by
  \<^verbatim>\<open>`${url.protocol}//${url.host}`\<close> (None when the constructor throws);
  \<open>url_valid\<close> says whether \<^verbatim>\<open>new URL(v)\<close> accepts the value; \<open>sha256\<close> is the digest of
  \<^verbatim>\<open>node:crypto\<close>; \<open>port_held\<close> is how the HTTP library ends a call whose
  \<^verbatim>\<open>app.listen\<close> cannot bind the port (see \<^verbatim>\<open>performAuthorizationFlow\<close> below). Every
  theorem below holds for all of them.
\<close>

record runtime =
  coerce :: "jsval \<Rightarrow> int option"
  url_origin :: "string \<Rightarrow> string option"
  url_valid :: "jsval \<Rightarrow> bool"
  sha256 :: "8 word list \<Rightarrow> 8 word list"
  port_held :: error

fun to_number :: "runtime \<Rightarrow> jsval \<Rightarrow> int option" where
  "to_number rt JUndefined = None"
| "to_number rt JNull = Some 0"
| "to_number rt (JBool b) = Some (if b then 1 else 0)"
| "to_number rt JNaN = None"
| "to_number rt (JNum n) = Some n"
| "to_number rt v = coerce rt v"

text \<open>\<^verbatim>\<open>now >= v\<close> for a number \<open>now\<close>: false when \<open>v\<close> converts to NaN.\<close>

definition js_ge :: "runtime \<Rightarrow> int \<Rightarrow> jsval \<Rightarrow> bool" where
  "js_ge rt now v = (case to_number rt v of None \<Rightarrow> False | Some n \<Rightarrow> now \<ge> n)"

text \<open>\<^verbatim>\<open>v - d\<close> and \<^verbatim>\<open>now + v * 1000\<close>: NaN when \<open>v\<close> converts to NaN.\<close>

definition js_minus :: "runtime \<Rightarrow> jsval \<Rightarrow> int \<Rightarrow> jsval" where
  "js_minus rt v d = (case to_number rt v of None \<Rightarrow> JNaN | Some n \<Rightarrow> JNum (n - d))"

definition expiry_of :: "runtime \<Rightarrow> int \<Rightarrow> jsval \<Rightarrow> jsval" where
  "expiry_of rt now expires_in =
     (if truthy expires_in
      then (case to_number rt expires_in of None \<Rightarrow> JNaN | Some n \<Rightarrow> JNum (now + n * 1000))
      else JUndefined)"

section \<open>The challenge generator\<close>

text \<open>
  \<^verbatim>\<open>buffer.toString('base64url')\<close>: three bytes give four characters of the URL-safe
  alphabet, a rest of one or two bytes gives two or three characters, and there is no
  padding.
\<close>

definition b64url_alphabet :: string where
  "b64url_alphabet =
     ''ABCDEFGHIJKLMNOPQRSTUVWXYZabcdefghijklmnopqrstuvwxyz0123456789-_''"

definition b64_char :: "nat \<Rightarrow> char" where
  "b64_char n = b64url_alphabet ! n"

fun b64_enc :: "nat list \<Rightarrow> string" where
  "b64_enc (a # b # c # r) =
     b64_char (a div 4) # b64_char ((a mod 4) * 16 + b div 16) #
     b64_char ((b mod 16) * 4 + c div 64) # b64_char (c mod 64) # b64_enc r"
| "b64_enc [a, b] =
     [b64_char (a div 4), b64_char ((a mod 4) * 16 + b div 16), b64_char ((b mod 16) * 4)]"
| "b64_enc [a] = [b64_char (a div 4), b64_char ((a mod 4) * 16)]"
| "b64_enc [] = []"

definition base64url :: "8 word list \<Rightarrow> string" where
  "base64url bs = b64_enc (map unat bs)"

text \<open>The bytes of a string of ASCII characters, as \<^verbatim>\<open>hash.update(verifier)\<close> reads them.\<close>

definition string_bytes :: "string \<Rightarrow> 8 word list" where
  "string_bytes s = map (\<lambda>c. of_nat (of_char c)) s"

text \<open>
  \<^verbatim>\<open>randomBytes(n)\<close> draws \<open>n\<close> bytes from the system's generator, which the model takes
  as a source of bytes.
\<close>

definition randomBytes :: "nat \<Rightarrow> (nat \<Rightarrow> 8 word) \<Rightarrow> 8 word list" where
  "randomBytes n src = map src [0..<n]"

definition generatePKCE :: "runtime \<Rightarrow> (nat \<Rightarrow> 8 word) \<Rightarrow> string \<times> string" where
  "generatePKCE rt src =
     (let verifier = base64url (randomBytes 32 src);
          challenge = base64url (sha256 rt (string_bytes verifier))
      in (verifier, challenge))"

text \<open>
  The check of the method S256 as the protocol states it (RFC 7636, 4.6): the server
  accepts a verifier when the URL-safe encoding of the SHA-256 digest of its ASCII bytes
  is the challenge it was given.
\<close>

definition s256_accepts :: "runtime \<Rightarrow> string \<Rightarrow> string \<Rightarrow> bool" where
  "s256_accepts rt verifier challenge \<longleftrightarrow>
     base64url (sha256 rt (string_bytes verifier)) = challenge"

section \<open>The manager, its surroundings and what it does to them\<close>

datatype level = LDebug | LInfo | LWarn | LError

text \<open>
  Everything the manager does to the outside is an event. A log event carries the level
  and the message as the source writes it, placeholders included; the further arguments
  of a log call are left out. The answer to the browser is the page as the source writes
  it, too. A fetch carries the method, the address and the fields of the body; a write
  carries the value the written text stands for; the browser is opened on the
  authorization endpoint with the search parameters that were set.
\<close>

datatype event =
    Log level string
  | FsExists
  | FsRead
  | FsMkdir
  | FsWrite jsval
  | Fetch string jsval "(string \<times> jsval) list"
  | Listen nat
  | OpenBrowser jsval "(string \<times> jsval) list"
  | Respond string
  | CloseServer

fun is_network :: "event \<Rightarrow> bool" where
  "is_network (Fetch m u b) = True"
| "is_network (Listen p) = True"
| "is_network (OpenBrowser u ps) = True"
| "is_network (Respond h) = True"
| "is_network CloseServer = True"
| "is_network e = False"

text \<open>
  The session file: missing, present with a content that cannot be read or that
  \<^verbatim>\<open>JSON.parse\<close> rejects, or present with a content that parses to a value.
\<close>

datatype session_file = NoFile | Garbage | Json jsval

text \<open>
  The state: the two mutable fields of the manager (undefined until assigned), the
  session file, whether the callback port is held by a listener that nothing is set to
  close, and the events so far.
\<close>

record state =
  metadata :: jsval
  session :: jsval
  disk :: session_file
  listening :: bool
  trace :: "event list"

text \<open>
  The configuration as the constructor leaves it, defaults filled in (port 3334, host
  \<^verbatim>\<open>localhost\<close>); \<open>staticClientInfo\<close> is undefined when the caller gave none. The
  session file of the manager is the one file \<open>disk\<close> stands for.
\<close>

record config =
  serverUrl :: string
  callbackPort :: nat
  callbackHost :: string
  staticClientInfo :: jsval

text \<open>
  What a call meets outside: the answer to each request, the request that reaches the
  callback listener, the outcome of the write, and the clock at each reading. One call of
  \<^verbatim>\<open>authorize\<close> or \<^verbatim>\<open>getAccessToken\<close> reads each of them at most once.
\<close>

datatype fetch_result =
    NetworkError
  | Response bool string "jsval option"
    \<comment> \<open>\<^verbatim>\<open>response.ok\<close>, \<^verbatim>\<open>response.text()\<close>, \<^verbatim>\<open>response.json()\<close> (None when it throws)\<close>

datatype callback =
    Timeout  \<comment> \<open>no request to \<^verbatim>\<open>/callback\<close> within the 300000 ms of the timer\<close>
  | Request "string option" "string option"
    \<comment> \<open>\<^verbatim>\<open>req.query.code\<close> and \<^verbatim>\<open>req.query.error\<close>, absent or a string\<close>

datatype save_outcome = Saved | MkdirFailed | WriteFailed

record env =
  now_load :: int        \<comment> \<open>\<^verbatim>\<open>Date.now()\<close> in \<^verbatim>\<open>loadSession\<close>\<close>
  discovery :: fetch_result
  registration :: fetch_result
  entropy :: "nat \<Rightarrow> 8 word"
  open_ok :: bool        \<comment> \<open>whether \<^verbatim>\<open>open(url)\<close> resolves\<close>
  callback :: callback
  token_exchange :: fetch_result
  now_issue :: int       \<comment> \<open>\<^verbatim>\<open>Date.now()\<close> in \<^verbatim>\<open>authorize\<close>, after the exchange\<close>
  save :: save_outcome
  now_check :: int       \<comment> \<open>\<^verbatim>\<open>Date.now()\<close> in the test of \<^verbatim>\<open>getAccessToken\<close>\<close>
  refresh :: fetch_result
  now_refresh :: int     \<comment> \<open>\<^verbatim>\<open>Date.now()\<close> in \<^verbatim>\<open>getAccessToken\<close>, after the refresh\<close>

definition emit :: "event \<Rightarrow> state \<Rightarrow> state" where
  "emit e s = s\<lparr>trace := trace s @ [e]\<rparr>"

definition logger :: "level \<Rightarrow> string \<Rightarrow> state \<Rightarrow> state" where
  "logger l m s = emit (Log l m) s"

section \<open>The operations of \<^verbatim>\<open>OAuthManager\<close>\<close>

text \<open>
  Each operation takes the state and returns its result, an error (what the source
  throws) or a value, with the state after it.
\<close>

definition getAuthBaseUrl :: "runtime \<Rightarrow> config \<Rightarrow> error + string" where
  "getAuthBaseUrl rt cfg =
     (case url_origin rt (serverUrl cfg) of None \<Rightarrow> Inl TypeError | Some b \<Rightarrow> Inr b)"

subsection \<open>\<^verbatim>\<open>discoverMetadata\<close>\<close>

definition default_metadata :: "string \<Rightarrow> jsval" where
  "default_metadata baseUrl =
     JObj [(''authorization_endpoint'', JStr (baseUrl @ ''/authorize'')),
           (''token_endpoint'', JStr (baseUrl @ ''/token'')),
           (''registration_endpoint'', JStr (baseUrl @ ''/register''))]"

text \<open>The statements after the \<^verbatim>\<open>try\<close> block.\<close>

definition use_defaults :: "string \<Rightarrow> state \<Rightarrow> (error + jsval) \<times> state" where
  "use_defaults baseUrl s =
     (let s1 = logger LInfo ''Using default OAuth endpoints'' s;
          md = default_metadata baseUrl
      in (Inr md, s1\<lparr>metadata := md\<rparr>))"

definition discoverMetadata ::
  "runtime \<Rightarrow> config \<Rightarrow> env \<Rightarrow> state \<Rightarrow> (error + jsval) \<times> state" where
  "discoverMetadata rt cfg ev s =
     (case getAuthBaseUrl rt cfg of
        Inl e \<Rightarrow> (Inl e, s)
      | Inr baseUrl \<Rightarrow>
          let metadataUrl = baseUrl @ ''/.well-known/oauth-authorization-server'';
              s1 = logger LDebug ''Discovering OAuth metadata from: ${metadataUrl}'' s;
              s2 = emit (Fetch ''GET'' (JStr metadataUrl) []) s1
          in (case discovery ev of
                NetworkError \<Rightarrow>
                  use_defaults baseUrl
                    (logger LDebug ''Metadata discovery failed, using defaults:'' s2)
              | Response ok text body \<Rightarrow>
                  if ok then
                    (case body of
                       None \<Rightarrow>
                         use_defaults baseUrl
                           (logger LDebug ''Metadata discovery failed, using defaults:'' s2)
                     | Some md \<Rightarrow>
                         (Inr md,
                          (logger LInfo ''OAuth metadata discovered successfully'' s2)
                            \<lparr>metadata := md\<rparr>))
                  else use_defaults baseUrl s2))"

subsection \<open>\<^verbatim>\<open>registerClient\<close>\<close>

definition digit_char :: "nat \<Rightarrow> char" where
  "digit_char d = ''0123456789'' ! d"

fun show_nat :: "nat \<Rightarrow> string" where
  "show_nat n =
     (if n < 10 then [digit_char n] else show_nat (n div 10) @ [digit_char (n mod 10)])"

declare show_nat.simps [simp del]

definition redirectUri :: "config \<Rightarrow> string" where
  "redirectUri cfg =
     ''http://'' @ callbackHost cfg @ '':'' @ show_nat (callbackPort cfg) @ ''/callback''"

definition registerClient ::
  "config \<Rightarrow> env \<Rightarrow> jsval \<Rightarrow> state \<Rightarrow> (error + jsval) \<times> state" where
  "registerClient cfg ev md s =
     (case get md ''registration_endpoint'' of
        Inl e \<Rightarrow> (Inl e, s)
      | Inr endpoint \<Rightarrow>
          if \<not> truthy endpoint
          then (Inl (Error ''Dynamic client registration not supported by server''), s)
          else
            let s1 = logger LInfo ''Registering dynamic OAuth client'' s;
                s2 = emit (Fetch ''POST'' endpoint
                       [(''client_name'', JStr ''MCP Wrapper''),
                        (''redirect_uris'', JArr [JStr (redirectUri cfg)]),
                        (''grant_types'',
                           JArr [JStr ''authorization_code'', JStr ''refresh_token'']),
                        (''response_types'', JArr [JStr ''code'']),
                        (''token_endpoint_auth_method'', JStr ''none'')]) s1
            in (case registration ev of
                  NetworkError \<Rightarrow> (Inl TypeError, s2)
                | Response ok text body \<Rightarrow>
                    if \<not> ok
                    then (Inl (Error (''Client registration failed: '' @ text)), s2)
                    else (case body of
                            None \<Rightarrow> (Inl SyntaxError, s2)
                          | Some clientInfo \<Rightarrow>
                              (Inr clientInfo,
                               logger LInfo ''OAuth client registered successfully'' s2))))"

subsection \<open>\<^verbatim>\<open>performAuthorizationFlow\<close>\<close>

text \<open>
  The handler of \<^verbatim>\<open>GET /callback\<close> and the timer. The handler answers the browser,
  settles the promise and sets a timer that closes the server 1000 ms later: the event
  \<open>CloseServer\<close> is that close, and from the handler on the port no longer counts as
  held, since its release is under way. The timer of the promise only rejects it.
\<close>

definition close_server :: "state \<Rightarrow> state" where
  "close_server s = (emit CloseServer s)\<lparr>listening := False\<rparr>"

fun truthy_param :: "string option \<Rightarrow> bool" where
  "truthy_param None = False"
| "truthy_param (Some p) = (p \<noteq> [])"

fun authCodePromise :: "callback \<Rightarrow> state \<Rightarrow> (error + string) \<times> state" where
  "authCodePromise Timeout s = (Inl (Error ''Authorization timeout''), s)"
| "authCodePromise (Request code err) s =
     (if truthy_param err then
        (Inl (Error (''Authorization failed: '' @ the err)),
         close_server (emit (Respond
           ''<html><body><h1>Authorization failed: ${error}</h1></body></html>'') s))
      else if truthy_param code then
        (Inr (the code),
         close_server (emit (Respond
           ''<html><body><h1>Authorization successful!</h1><p>You can close this window.</p></body></html>'') s))
      else
        (Inl (Error ''Invalid callback: missing code''),
         close_server (emit (Respond
           ''<html><body><h1>Invalid callback</h1></body></html>'') s)))"

text \<open>The exchange of the code for tokens, the last part of the flow.\<close>

definition exchange_code ::
  "config \<Rightarrow> env \<Rightarrow> jsval \<Rightarrow> jsval \<Rightarrow> string \<Rightarrow> string \<Rightarrow> state
     \<Rightarrow> (error + jsval) \<times> state" where
  "exchange_code cfg ev token_endpoint client_id code verifier s =
     (let s1 = emit (Fetch ''POST'' token_endpoint
                 [(''grant_type'', JStr ''authorization_code''),
                  (''code'', JStr code),
                  (''redirect_uri'', JStr (redirectUri cfg)),
                  (''client_id'', client_id),
                  (''code_verifier'', JStr verifier)]) s
      in (case token_exchange ev of
            NetworkError \<Rightarrow> (Inl TypeError, s1)
          | Response ok text body \<Rightarrow>
              if \<not> ok then (Inl (Error (''Token exchange failed: '' @ text)), s1)
              else (case body of
                      None \<Rightarrow> (Inl SyntaxError, s1)
                    | Some tokens \<Rightarrow>
                        (Inr tokens, logger LInfo ''Access token obtained successfully'' s1))))"

text \<open>
  \<^verbatim>\<open>app.listen\<close> on a port that an earlier listener still holds cannot bind it. The
  source has no handler for that, and what follows is decided by the HTTP library, which
  is not part of the repository (the unhandled failure ends the process, or the failure
  is ignored and only the timer can settle the promise). The model does not follow such
  a call further: it ends there with the failure \<open>port_held\<close> of the runtime, a
  parameter on which no property below depends. A new attempt within the 1000 ms before
  a close that is under way is not modelled either: the port counts as free.
\<close>

definition performAuthorizationFlow ::
  "runtime \<Rightarrow> config \<Rightarrow> env \<Rightarrow> jsval \<Rightarrow> jsval \<Rightarrow> state \<Rightarrow> (error + jsval) \<times> state" where
  "performAuthorizationFlow rt cfg ev md clientInfo s =
     (let (verifier, challenge) = generatePKCE rt (entropy ev) in
      case get md ''authorization_endpoint'' of
        Inl e \<Rightarrow> (Inl e, s)
      | Inr endpoint \<Rightarrow>
          if \<not> url_valid rt endpoint then (Inl TypeError, s)
          else
            (case get clientInfo ''client_id'' of
               Inl e \<Rightarrow> (Inl e, s)
             | Inr client_id \<Rightarrow>
                 let params = [(''client_id'', client_id),
                               (''redirect_uri'', JStr (redirectUri cfg)),
                               (''response_type'', JStr ''code''),
                               (''code_challenge'', JStr challenge),
                               (''code_challenge_method'', JStr ''S256'')];
                     s1 = logger LInfo ''Starting authorization flow'' s;
                     s2 = logger LDebug ''Authorization URL: ${authUrl.toString()}'' s1;
                     s3 = emit (Listen (callbackPort cfg)) s2
                 in if listening s3 then (Inl (port_held rt), s3)
                    else
                      let s4 = logger LInfo
                                 ''Callback server listening on port ${this.config.callbackPort}''
                                 (s3\<lparr>listening := True\<rparr>);
                          s5 = emit (OpenBrowser endpoint params) s4;
                          s6 = (if open_ok ev then s5
                                else logger LInfo
                                       ''Please open this URL in your browser: ${authUrl.toString()}''
                                       (logger LWarn
                                          ''Failed to open browser automatically:'' s5))
                      in (case authCodePromise (callback ev) s6 of
                            (Inl e, s7) \<Rightarrow> (Inl e, s7)
                          | (Inr code, s7) \<Rightarrow>
                              let s8 = logger LInfo ''Authorization code received'' s7 in
                              (case get md ''token_endpoint'' of
                                 Inl e \<Rightarrow> (Inl e, s8)
                               | Inr token_endpoint \<Rightarrow>
                                   exchange_code cfg ev token_endpoint client_id code
                                     verifier s8))))"

subsection \<open>\<^verbatim>\<open>loadSession\<close> and \<^verbatim>\<open>saveSession\<close>\<close>

text \<open>
  \<^verbatim>\<open>loadSession\<close> never throws: its \<^verbatim>\<open>catch\<close> turns every failure into undefined.
\<close>

definition loadSession :: "runtime \<Rightarrow> env \<Rightarrow> state \<Rightarrow> jsval \<times> state" where
  "loadSession rt ev s =
     (case disk s of
        NoFile \<Rightarrow> (JUndefined, emit FsExists s)
      | Garbage \<Rightarrow>
          (JUndefined,
           logger LDebug ''Failed to load saved session:'' (emit FsRead (emit FsExists s)))
      | Json v \<Rightarrow>
          let s1 = emit FsRead (emit FsExists s) in
          (case get v ''expiresAt'' of
             Inl e \<Rightarrow> (JUndefined, logger LDebug ''Failed to load saved session:'' s1)
           | Inr expiresAt \<Rightarrow>
               if truthy expiresAt \<and> js_ge rt (now_load ev) expiresAt
               then (JUndefined, logger LDebug ''Saved session expired'' s1)
               else (v, logger LDebug ''Loaded saved session'' s1)))"

text \<open>
  \<^verbatim>\<open>saveSession\<close> never throws either: a failed \<^verbatim>\<open>mkdir\<close> or \<^verbatim>\<open>writeFile\<close> is
  logged as a warning. A failed write is taken to leave the file as it was.
\<close>

definition saveSession :: "env \<Rightarrow> jsval \<Rightarrow> state \<Rightarrow> state" where
  "saveSession ev sess s =
     (case save ev of
        MkdirFailed \<Rightarrow> logger LWarn ''Failed to save session:'' (emit FsMkdir s)
      | WriteFailed \<Rightarrow>
          logger LWarn ''Failed to save session:''
            (emit (FsWrite (jsonify sess)) (emit FsMkdir s))
      | Saved \<Rightarrow>
          logger LDebug ''Session saved to disk''
            ((emit (FsWrite (jsonify sess)) (emit FsMkdir s))\<lparr>disk := Json (jsonify sess)\<rparr>))"

subsection \<open>\<^verbatim>\<open>refreshAccessToken\<close>\<close>

definition refreshAccessToken :: "env \<Rightarrow> state \<Rightarrow> (error + jsval) \<times> state" where
  "refreshAccessToken ev s =
     (if \<not> truthy (metadata s) \<or> \<not> truthy (session s)
      then (Inl (Error ''Cannot refresh token: no active session''), s)
      else
        (case get (session s) ''tokens'' of
           Inl e \<Rightarrow> (Inl e, s)
         | Inr tokens \<Rightarrow>
             (case get tokens ''refresh_token'' of
                Inl e \<Rightarrow> (Inl e, s)
              | Inr refresh_token \<Rightarrow>
                  if \<not> truthy refresh_token
                  then (Inl (Error ''No refresh token available''), s)
                  else
                    let s1 = logger LInfo ''Refreshing access token'' s in
                    (case get (metadata s) ''token_endpoint'' of
                       Inl e \<Rightarrow> (Inl e, s1)
                     | Inr token_endpoint \<Rightarrow>
                         (case get (session s) ''clientInfo'' of
                            Inl e \<Rightarrow> (Inl e, s1)
                          | Inr clientInfo \<Rightarrow>
                              (case get clientInfo ''client_id'' of
                                 Inl e \<Rightarrow> (Inl e, s1)
                               | Inr client_id \<Rightarrow>
                                   let s2 = emit (Fetch ''POST'' token_endpoint
                                              [(''grant_type'', JStr ''refresh_token''),
                                               (''refresh_token'', refresh_token),
                                               (''client_id'', client_id)]) s1
                                   in (case refresh ev of
                                         NetworkError \<Rightarrow> (Inl TypeError, s2)
                                       | Response ok text body \<Rightarrow>
                                           if \<not> ok
                                           then (Inl (Error (''Token refresh failed: '' @ text)),
                                                 s2)
                                           else
                                             (case body of
                                                None \<Rightarrow> (Inl SyntaxError, s2)
                                              | Some tokens' \<Rightarrow>
                                                  (Inr tokens',
                                                   logger LInfo
                                                     ''Access token refreshed successfully''
                                                     s2)))))))))"

subsection \<open>\<^verbatim>\<open>authorize\<close>\<close>

text \<open>\<^verbatim>\<open>x.tokens.access_token\<close>, the value both public operations return.\<close>

definition access_token_of :: "jsval \<Rightarrow> error + jsval" where
  "access_token_of sess =
     (case get sess ''tokens'' of
        Inl e \<Rightarrow> Inl e
      | Inr tokens \<Rightarrow> get tokens ''access_token'')"

text \<open>The steps of \<^verbatim>\<open>authorize\<close> after the client is known.\<close>

definition obtain_session ::
  "runtime \<Rightarrow> config \<Rightarrow> env \<Rightarrow> jsval \<Rightarrow> jsval \<Rightarrow> state \<Rightarrow> (error + jsval) \<times> state" where
  "obtain_session rt cfg ev md clientInfo s =
     (case performAuthorizationFlow rt cfg ev md clientInfo s of
        (Inl e, s1) \<Rightarrow> (Inl e, s1)
      | (Inr tokens, s1) \<Rightarrow>
          (case get tokens ''expires_in'' of
             Inl e \<Rightarrow> (Inl e, s1)
           | Inr expires_in \<Rightarrow>
               let expiresAt = expiry_of rt (now_issue ev) expires_in;
                   sess = JObj [(''clientInfo'', clientInfo), (''tokens'', tokens),
                                (''expiresAt'', expiresAt)];
                   s2 = saveSession ev sess (s1\<lparr>session := sess\<rparr>)
               in (get tokens ''access_token'', s2)))"

text \<open>The statements of \<^verbatim>\<open>authorize\<close> after the early return: the full authorization.\<close>

definition full_authorization ::
  "runtime \<Rightarrow> config \<Rightarrow> env \<Rightarrow> state \<Rightarrow> (error + jsval) \<times> state" where
  "full_authorization rt cfg ev s =
     (case discoverMetadata rt cfg ev s of
        (Inl e, s1) \<Rightarrow> (Inl e, s1)
      | (Inr md, s1) \<Rightarrow>
          if \<not> truthy (staticClientInfo cfg)
          then
            (case registerClient cfg ev md s1 of
               (Inl e, s2) \<Rightarrow>
                 (Inl (Error
                    ''OAuth client registration failed and no static client info provided''),
                  logger LError ''Failed to register client:'' s2)
             | (Inr clientInfo, s2) \<Rightarrow> obtain_session rt cfg ev md clientInfo s2)
          else obtain_session rt cfg ev md (staticClientInfo cfg) s1)"

definition authorize ::
  "runtime \<Rightarrow> config \<Rightarrow> env \<Rightarrow> state \<Rightarrow> (error + jsval) \<times> state" where
  "authorize rt cfg ev s =
     (case loadSession rt ev s of
        (loaded, s0) \<Rightarrow>
          let s1 = s0\<lparr>session := loaded\<rparr> in
          if truthy loaded
          then (access_token_of loaded, logger LInfo ''Using saved OAuth session'' s1)
          else full_authorization rt cfg ev s1)"

subsection \<open>\<^verbatim>\<open>getAccessToken\<close>\<close>

text \<open>
  The body of the \<^verbatim>\<open>try\<close> block: the refresh, the two assignments to the held session
  and the save. An error at any step leaves the block for the \<^verbatim>\<open>catch\<close>.
\<close>

definition refresh_session :: "runtime \<Rightarrow> env \<Rightarrow> state \<Rightarrow> (error + unit) \<times> state" where
  "refresh_session rt ev s =
     (case refreshAccessToken ev s of
        (Inl e, s1) \<Rightarrow> (Inl e, s1)
      | (Inr tokens, s1) \<Rightarrow>
          (case set_prop (session s1) ''tokens'' tokens of
             Inl e \<Rightarrow> (Inl e, s1)
           | Inr sess1 \<Rightarrow>
               let s2 = s1\<lparr>session := sess1\<rparr> in
               (case get tokens ''expires_in'' of
                  Inl e \<Rightarrow> (Inl e, s2)
                | Inr expires_in \<Rightarrow>
                    (case set_prop sess1 ''expiresAt''
                            (expiry_of rt (now_refresh ev) expires_in) of
                       Inl e \<Rightarrow> (Inl e, s2)
                     | Inr sess2 \<Rightarrow>
                         (Inr (), saveSession ev sess2 (s2\<lparr>session := sess2\<rparr>))))))"

text \<open>
  The test \<^verbatim>\<open>this.session.expiresAt && Date.now() >= this.session.expiresAt - 300000\<close>.
\<close>

definition refresh_due :: "runtime \<Rightarrow> int \<Rightarrow> jsval \<Rightarrow> bool" where
  "refresh_due rt now expiresAt \<longleftrightarrow>
     truthy expiresAt \<and> js_ge rt now (js_minus rt expiresAt 300000)"

definition getAccessToken ::
  "runtime \<Rightarrow> config \<Rightarrow> env \<Rightarrow> state \<Rightarrow> (error + jsval) \<times> state" where
  "getAccessToken rt cfg ev s =
     (if \<not> truthy (session s) then authorize rt cfg ev s
      else
        (case get (session s) ''expiresAt'' of
           Inl e \<Rightarrow> (Inl e, s)
         | Inr expiresAt \<Rightarrow>
             if refresh_due rt (now_check ev) expiresAt
             then
               (case refresh_session rt ev s of
                  (Inl e, s1) \<Rightarrow>
                    authorize rt cfg ev
                      (logger LWarn ''Token refresh failed, re-authorizing:'' s1)
                | (Inr u, s1) \<Rightarrow> (access_token_of (session s1), s1))
             else (access_token_of (session s), s)))"

subsection \<open>\<^verbatim>\<open>clearSession\<close>\<close>

definition clearSession :: "bool \<Rightarrow> state \<Rightarrow> state" where
  "clearSession unlink_ok s =
     (let s1 = emit FsExists (s\<lparr>session := JUndefined\<rparr>)
      in (case disk s1 of
            NoFile \<Rightarrow> s1
          | _ \<Rightarrow>
              if unlink_ok then logger LInfo ''Session cleared'' (s1\<lparr>disk := NoFile\<rparr>)
              else logger LWarn ''Failed to clear session:'' s1))"

section \<open>Notions of the specification\<close>


text \<open>The events a call added to the trace.\<close>

definition new_events :: "state \<Rightarrow> state \<Rightarrow> event list" where
  "new_events s s' = drop (length (trace s)) (trace s')"

text \<open>
  The refresh request as the specification describes it (4.5): form-encoded fields posted
  to the token endpoint, with the grant type \<^verbatim>\<open>refresh_token\<close>, the refresh token of
  the session and the client id.
\<close>

definition refresh_request :: "jsval \<Rightarrow> jsval \<Rightarrow> jsval \<Rightarrow> event" where
  "refresh_request token_endpoint refresh_token client_id =
     Fetch ''POST'' token_endpoint
       [(''grant_type'', JStr ''refresh_token''), (''refresh_token'', refresh_token),
        (''client_id'', client_id)]"

text \<open>
  Usable metadata, after the data model of the specification (3): an authorization
  endpoint and a token endpoint, each a non-empty text.
\<close>

fun is_text :: "jsval \<Rightarrow> bool" where
  "is_text (JStr t) = (t \<noteq> [])"
| "is_text v = False"

definition usable_metadata :: "jsval \<Rightarrow> bool" where
  "usable_metadata md =
     (case get md ''authorization_endpoint'' of
        Inl e \<Rightarrow> False
      | Inr a \<Rightarrow>
          is_text a \<and> (case get md ''token_endpoint'' of Inl e \<Rightarrow> False | Inr t \<Rightarrow> is_text t))"

text \<open>Successive calls of one operation, each in its own surroundings.\<close>

fun repeat_call ::
  "(env \<Rightarrow> state \<Rightarrow> (error + jsval) \<times> state) \<Rightarrow> env list \<Rightarrow> state
     \<Rightarrow> (error + jsval) list \<times> state" where
  "repeat_call f [] s = ([], s)"
| "repeat_call f (ev # evs) s =
     (case f ev s of
        (r, s1) \<Rightarrow> (case repeat_call f evs s1 of (rs, s2) \<Rightarrow> (r # rs, s2)))"

section \<open>Concrete surroundings\<close>

text \<open>
  A runtime, a configuration and an environment on which the theorems are instantiated.
  The digest of \<open>test_runtime\<close> is a stand-in (the first 32 bytes of its input), and so
  is its \<open>port_held\<close>: no theorem depends on what they are.
\<close>

definition test_runtime :: runtime where
  "test_runtime =
     \<lparr>coerce = (\<lambda>v. None),
      url_origin = (\<lambda>u. if u = ''https://mcp.example.com/sse''
                         then Some ''https://mcp.example.com'' else None),
      url_valid = (\<lambda>v. case v of JStr u \<Rightarrow> take 8 u = ''https://'' | _ \<Rightarrow> False),
      sha256 = (\<lambda>bs. take 32 bs),
      port_held = Error ''listen EADDRINUSE''\<rparr>"

definition test_config :: config where
  "test_config =
     \<lparr>serverUrl = ''https://mcp.example.com/sse'', callbackPort = 3334,
      callbackHost = ''localhost'', staticClientInfo = JUndefined\<rparr>"

definition test_tokens :: jsval where
  "test_tokens =
     JObj [(''access_token'', JStr ''at-1''), (''token_type'', JStr ''Bearer''),
           (''expires_in'', JNum 3600), (''refresh_token'', JStr ''rt-1'')]"

definition test_entropy :: "nat \<Rightarrow> 8 word" where
  "test_entropy i = of_nat (7 * i + 3)"

definition other_entropy :: "nat \<Rightarrow> 8 word" where
  "other_entropy i = of_nat (5 * i + 1)"

text \<open>
  The clock reads 1000000000 ms at the start of a call. Discovery meets a network
  error, registration and the code exchange succeed, the refresh is refused.
\<close>

definition test_env :: env where
  "test_env =
     \<lparr>now_load = 1000000000, discovery = NetworkError,
      registration = Response True [] (Some (JObj [(''client_id'', JStr ''client-1'')])),
      entropy = test_entropy, open_ok = True,
      callback = Request (Some ''code-1'') None,
      token_exchange = Response True [] (Some test_tokens),
      now_issue = 1000005000, save = Saved, now_check = 1000000000,
      refresh = Response False ''invalid_grant'' None, now_refresh = 1000001000\<rparr>"

text \<open>A manager that has done nothing yet, with no session file.\<close>

definition fresh_state :: state where
  "fresh_state =
     \<lparr>metadata = JUndefined, session = JUndefined, disk = NoFile,
      listening = False, trace = []\<rparr>"

text \<open>
  The session that a full authorization in \<open>test_env\<close> produces (issued at 1000005000
  for 3600 seconds); a new process that finds it persisted; and the state of the process
  that obtained it: metadata resolved, the session held and persisted.
\<close>

definition test_session :: jsval where
  "test_session =
     JObj [(''clientInfo'', JObj [(''client_id'', JStr ''client-1'')]),
           (''tokens'', test_tokens),
           (''expiresAt'', JNum 1003605000)]"

definition cached_state :: state where
  "cached_state = fresh_state\<lparr>disk := Json test_session\<rparr>"

definition held_state :: state where
  "held_state =
     \<lparr>metadata = default_metadata ''https://mcp.example.com'', session = test_session,
      disk = Json test_session, listening = False, trace = []\<rparr>"

text \<open>
  The new process after its first \<^verbatim>\<open>authorize\<close>, and a moment 299 seconds before the
  session expires.
\<close>

definition restarted_state :: state where
  "restarted_state = snd (authorize test_runtime test_config test_env cached_state)"

definition near_expiry_env :: env where
  "near_expiry_env = test_env\<lparr>now_load := 1003306000, now_check := 1003306000\<rparr>"

text \<open>
  Records that lack a field of a session: no \<^verbatim>\<open>clientInfo\<close>; no \<^verbatim>\<open>tokens\<close> (and no
  expiry); no \<^verbatim>\<open>expiresAt\<close>, as after a token response without \<^verbatim>\<open>expires_in\<close>.
\<close>

definition no_client_record :: jsval where
  "no_client_record =
     JObj [(''tokens'', JObj [(''access_token'', JStr ''at-0'')]),
           (''expiresAt'', JNum 1003605000)]"

definition no_tokens_record :: jsval where
  "no_tokens_record = JObj [(''clientInfo'', JObj [(''client_id'', JStr ''client-1'')])]"

definition no_expiry_session :: jsval where
  "no_expiry_session =
     JObj [(''clientInfo'', JObj [(''client_id'', JStr ''client-1'')]),
           (''tokens'', JObj [(''access_token'', JStr ''at-1''), (''token_type'', JStr ''Bearer'')])]"

text \<open>
  The state of that process with the expiry 0 in the held session; and surroundings,
  299 seconds before the session expires, in which the token endpoint grants the refresh.
\<close>

definition zero_expiry_state :: state where
  "zero_expiry_state =
     held_state\<lparr>session :=
       JObj [(''clientInfo'', JObj [(''client_id'', JStr ''client-1'')]),
             (''tokens'', test_tokens),
             (''expiresAt'', JNum 0)]\<rparr>"

definition renewed_tokens :: jsval where
  "renewed_tokens =
     JObj [(''access_token'', JStr ''at-2''), (''token_type'', JStr ''Bearer''),
           (''expires_in'', JNum 3600)]"

definition renewal_env :: env where
  "renewal_env =
     near_expiry_env\<lparr>refresh := Response True [] (Some renewed_tokens),
                     now_refresh := 1003307000\<rparr>"

text \<open>No request reaches the callback listener.\<close>

definition timeout_env :: env where
  "timeout_env = test_env\<lparr>callback := Timeout\<rparr>"

section \<open>Properties of the challenge generator\<close>

lemma b64url_alphabet_distinct: "distinct b64url_alphabet"
  unfolding b64url_alphabet_def by code_simp

lemma b64url_alphabet_length: "length b64url_alphabet = 64"
  by (simp add: b64url_alphabet_def)

lemma b64_char_inj: "i < 64 \<Longrightarrow> j < 64 \<Longrightarrow> b64_char i = b64_char j \<Longrightarrow> i = j"
  unfolding b64_char_def
  using b64url_alphabet_distinct b64url_alphabet_length
  by (simp add: nth_eq_iff_index_eq)

lemma b64_char_in_alphabet: "i < 64 \<Longrightarrow> b64_char i \<in> set b64url_alphabet"
  unfolding b64_char_def using b64url_alphabet_length by simp

lemma split_digits:
  fixes h l h' l' k :: nat
  assumes "l < k" "l' < k" "h * k + l = h' * k + l'"
  shows "h = h' \<and> l = l'"
proof -
  have "(h * k + l) div k = h" "(h' * k + l') div k = h'"
    using assms(1,2) by simp_all
  then have "h = h'" using assms(3) by simp
  with assms(3) show ?thesis by simp
qed

lemma same_div_mod:
  fixes x y k :: nat
  assumes "x div k = y div k" "x mod k = y mod k"
  shows "x = y"
  using assms by (metis div_mult_mod_eq)

lemma sextet_bounds:
  fixes h l :: nat
  shows "h < 4 \<Longrightarrow> l < 16 \<Longrightarrow> h * 16 + l < 64"
    and "l < 16 \<Longrightarrow> h < 4 \<Longrightarrow> l * 4 + h < 64"
    and "l < 16 \<Longrightarrow> l * 4 < 64"
    and "h < 4 \<Longrightarrow> h * 16 < 64"
  by simp_all

lemma byte_parts:
  fixes a :: nat
  assumes "a < 256"
  shows "a div 4 < 64" "a mod 4 < 4" "a div 16 < 16" "a mod 16 < 16"
    "a div 64 < 4" "a mod 64 < 64"
  using assms by (simp_all add: less_mult_imp_div_less)

text \<open>The first two characters of a group determine its first byte.\<close>

lemma first_two_chars:
  assumes "a < 256" "a' < 256" "b < 256" "b' < 256"
    and "b64_char (a div 4) = b64_char (a' div 4)"
    and "b64_char ((a mod 4) * 16 + b div 16) = b64_char ((a' mod 4) * 16 + b' div 16)"
  shows "a = a' \<and> b div 16 = b' div 16"
proof -
  have "a div 4 = a' div 4"
    using assms(5) byte_parts(1) [OF assms(1)] byte_parts(1) [OF assms(2)]
    by (rule_tac b64_char_inj)
  moreover have "(a mod 4) * 16 + b div 16 = (a' mod 4) * 16 + b' div 16"
    using assms(6)
    by (intro b64_char_inj sextet_bounds(1) byte_parts assms(1-4))
  then have "a mod 4 = a' mod 4 \<and> b div 16 = b' div 16"
    by (intro split_digits [where k = 16] byte_parts assms(3,4))
  ultimately show ?thesis
    using same_div_mod [of a 4 a'] by simp
qed

lemma three_bytes_inj:
  assumes "a < 256" "a' < 256" "b < 256" "b' < 256" "c < 256" "c' < 256"
    and "b64_char (a div 4) = b64_char (a' div 4)"
    and "b64_char ((a mod 4) * 16 + b div 16) = b64_char ((a' mod 4) * 16 + b' div 16)"
    and "b64_char ((b mod 16) * 4 + c div 64) = b64_char ((b' mod 16) * 4 + c' div 64)"
    and "b64_char (c mod 64) = b64_char (c' mod 64)"
  shows "a = a' \<and> b = b' \<and> c = c'"
proof -
  have ab: "a = a' \<and> b div 16 = b' div 16"
    using assms(1-4,7,8) by (rule first_two_chars)
  have "(b mod 16) * 4 + c div 64 = (b' mod 16) * 4 + c' div 64"
    using assms(9)
    by (intro b64_char_inj sextet_bounds(2) byte_parts assms(1-6))
  then have bc: "b mod 16 = b' mod 16 \<and> c div 64 = c' div 64"
    by (intro split_digits [where k = 4] byte_parts assms(5,6))
  have "c mod 64 = c' mod 64"
    using assms(10) by (intro b64_char_inj byte_parts assms(5,6))
  with ab bc show ?thesis
    using same_div_mod [of b 16 b'] same_div_mod [of c 64 c'] by simp
qed

lemma two_bytes_inj:
  assumes "a < 256" "a' < 256" "b < 256" "b' < 256"
    and "b64_char (a div 4) = b64_char (a' div 4)"
    and "b64_char ((a mod 4) * 16 + b div 16) = b64_char ((a' mod 4) * 16 + b' div 16)"
    and "b64_char ((b mod 16) * 4) = b64_char ((b' mod 16) * 4)"
  shows "a = a' \<and> b = b'"
proof -
  have ab: "a = a' \<and> b div 16 = b' div 16"
    using assms(1-6) by (rule first_two_chars)
  have "(b mod 16) * 4 = (b' mod 16) * 4"
    using assms(7) by (intro b64_char_inj sextet_bounds(3) byte_parts assms(3,4))
  then have "b mod 16 = b' mod 16" by simp
  with ab show ?thesis
    using same_div_mod [of b 16 b'] by simp
qed

lemma one_byte_inj:
  assumes "a < 256" "a' < 256"
    and "b64_char (a div 4) = b64_char (a' div 4)"
    and "b64_char ((a mod 4) * 16) = b64_char ((a' mod 4) * 16)"
  shows "a = a'"
proof -
  have "a div 4 = a' div 4"
    using assms(3) by (intro b64_char_inj byte_parts assms(1,2))
  moreover have "(a mod 4) * 16 = (a' mod 4) * 16"
    using assms(4) by (intro b64_char_inj sextet_bounds(4) byte_parts assms(1,2))
  then have "a mod 4 = a' mod 4" by simp
  ultimately show ?thesis by (rule same_div_mod)
qed

text \<open>On byte lists of one length the encoding is injective.\<close>

lemma b64_enc_inj:
  "length xs = length ys \<Longrightarrow> \<forall>x\<in>set xs. x < 256 \<Longrightarrow> \<forall>y\<in>set ys. y < 256 \<Longrightarrow>
   b64_enc xs = b64_enc ys \<Longrightarrow> xs = ys"
proof (induction xs arbitrary: ys rule: b64_enc.induct)
  case (1 a b c r)
  from "1.prems"(1) obtain a' b' c' r' where ys: "ys = a' # b' # c' # r'"
    by (cases ys; cases "tl ys"; cases "tl (tl ys)") auto
  have "a = a' \<and> b = b' \<and> c = c'"
    using "1.prems" unfolding ys by (intro three_bytes_inj) simp_all
  moreover have "r = r'"
    using "1.prems" unfolding ys by (intro "1.IH") simp_all
  ultimately show ?case using ys by simp
next
  case (2 a b)
  from "2.prems"(1) obtain a' b' where ys: "ys = [a', b']"
    by (cases ys; cases "tl ys") auto
  have "a = a' \<and> b = b'"
    using "2.prems" unfolding ys by (intro two_bytes_inj) simp_all
  then show ?case using ys by simp
next
  case (3 a)
  from "3.prems"(1) obtain a' where ys: "ys = [a']" by (cases ys) auto
  have "a = a'"
    using "3.prems" unfolding ys by (intro one_byte_inj) simp_all
  then show ?case using ys by simp
next
  case 4
  then show ?case by simp
qed

lemma length_b64_enc: "length (b64_enc xs) = (4 * length xs + 2) div 3"
  by (induction xs rule: b64_enc.induct) simp_all

lemma b64_char_sextets:
  assumes "a < 256" "b < 256"
  shows "b64_char (a div 4) \<in> set b64url_alphabet"
    and "b64_char ((a mod 4) * 16 + b div 16) \<in> set b64url_alphabet"
    and "b64_char ((a mod 16) * 4 + b div 64) \<in> set b64url_alphabet"
    and "b64_char (a mod 64) \<in> set b64url_alphabet"
    and "b64_char ((a mod 16) * 4) \<in> set b64url_alphabet"
    and "b64_char ((a mod 4) * 16) \<in> set b64url_alphabet"
  by (intro b64_char_in_alphabet sextet_bounds byte_parts assms)+

lemma set_b64_enc: "\<forall>x\<in>set xs. x < 256 \<Longrightarrow> set (b64_enc xs) \<subseteq> set b64url_alphabet"
proof (induction xs rule: b64_enc.induct)
  case (1 a b c r)
  then have "a < 256" "b < 256" "c < 256" by simp_all
  with 1 show ?case by (simp add: b64_char_sextets)
next
  case (2 a b)
  then have "a < 256" "b < 256" by simp_all
  then show ?case by (simp add: b64_char_sextets)
next
  case (3 a)
  then have "a < 256" by simp
  then show ?case by (simp add: b64_char_sextets)
next
  case 4
  then show ?case by simp
qed

lemma unat_byte_bound: "\<forall>x\<in>set (map unat (bs :: 8 word list)). x < 256"
proof
  fix x assume "x \<in> set (map unat bs)"
  then obtain w :: "8 word" where "x = unat w" by auto
  moreover have "unat w < 2 ^ LENGTH(8)" by (rule unsigned_less)
  ultimately show "x < 256" by simp
qed

lemma base64url_inj:
  assumes "length bs = length cs" "base64url bs = base64url cs"
  shows "bs = cs"
proof -
  have "map unat bs = map unat cs"
    using assms unat_byte_bound [of bs] unat_byte_bound [of cs]
    unfolding base64url_def by (intro b64_enc_inj) simp_all
  then show "bs = cs"
    by (simp add: inj_map_eq_map [OF inj_unsigned])
qed

lemma length_base64url: "length (base64url bs) = (4 * length bs + 2) div 3"
  by (simp add: base64url_def length_b64_enc)

lemma set_base64url: "set (base64url bs) \<subseteq> set b64url_alphabet"
  unfolding base64url_def by (rule set_b64_enc [OF unat_byte_bound])

text \<open>
  Claim C7. A call of \<^verbatim>\<open>generatePKCE\<close> returns as verifier the URL-safe encoding of the
  32 bytes it drew (43 characters of the URL-safe alphabet) and as challenge the URL-safe
  encoding of the SHA-256 digest of that verifier, so the pair passes the S256 check; and
  a call that draws other bytes returns another verifier. That the bytes are
  cryptographically random, and so differ between two calls, is a property of
  \<^verbatim>\<open>randomBytes\<close> and not of this code: the draw is the parameter \<open>src\<close>.
\<close>

theorem generatePKCE_s256:
  assumes "generatePKCE rt src = (verifier, challenge)"
  shows "verifier = base64url (randomBytes 32 src)
       \<and> length (randomBytes 32 src) = 32
       \<and> length verifier = 43
       \<and> set verifier \<subseteq> set b64url_alphabet
       \<and> challenge = base64url (sha256 rt (string_bytes verifier))
       \<and> set challenge \<subseteq> set b64url_alphabet
       \<and> s256_accepts rt verifier challenge
       \<and> (\<forall>src'. randomBytes 32 src' \<noteq> randomBytes 32 src
             \<longrightarrow> fst (generatePKCE rt src') \<noteq> verifier)"
proof -
  from assms have v: "verifier = base64url (randomBytes 32 src)"
    and c: "challenge = base64url (sha256 rt (string_bytes verifier))"
    by (auto simp add: generatePKCE_def Let_def)
  have len: "length (randomBytes 32 src) = 32" for src :: "nat \<Rightarrow> 8 word"
    by (simp add: randomBytes_def)
  have "fst (generatePKCE rt src') \<noteq> verifier"
    if "randomBytes 32 src' \<noteq> randomBytes 32 src" for src'
  proof
    assume "fst (generatePKCE rt src') = verifier"
    then have "base64url (randomBytes 32 src') = base64url (randomBytes 32 src)"
      using v by (simp add: generatePKCE_def Let_def)
    then have "randomBytes 32 src' = randomBytes 32 src"
      by (intro base64url_inj) (simp_all add: len)
    with that show False by contradiction
  qed
  moreover have "length verifier = 43"
    using v by (simp add: length_base64url len)
  ultimately show ?thesis
    using v c len by (simp add: s256_accepts_def set_base64url)
qed

theorem generatePKCE_s256_witness:
  "generatePKCE test_runtime test_entropy =
     (''AwoRGB8mLTQ7QklQV15lbHN6gYiPlp2kq7K5wMfO1dw'',
      ''QXdvUkdCOG1MVFE3UWtsUVYxNWxiSE42Z1lpUGxwMms'')
   \<and> length ''AwoRGB8mLTQ7QklQV15lbHN6gYiPlp2kq7K5wMfO1dw'' = 43
   \<and> s256_accepts test_runtime ''AwoRGB8mLTQ7QklQV15lbHN6gYiPlp2kq7K5wMfO1dw''
        ''QXdvUkdCOG1MVFE3UWtsUVYxNWxiSE42Z1lpUGxwMms''
   \<and> randomBytes 32 other_entropy \<noteq> randomBytes 32 test_entropy
   \<and> fst (generatePKCE test_runtime other_entropy)
        \<noteq> ''AwoRGB8mLTQ7QklQV15lbHN6gYiPlp2kq7K5wMfO1dw''"
proof -
  have run: "generatePKCE test_runtime test_entropy =
      (''AwoRGB8mLTQ7QklQV15lbHN6gYiPlp2kq7K5wMfO1dw'',
       ''QXdvUkdCOG1MVFE3UWtsUVYxNWxiSE42Z1lpUGxwMms'')"
    by code_simp
  have other: "randomBytes 32 other_entropy \<noteq> randomBytes 32 test_entropy"
    by code_simp
  from generatePKCE_s256 [OF run] other run show ?thesis by blast
qed

section \<open>Properties of the session store and of the manager\<close>

text \<open>
  The definitions of the concrete surroundings and of the operations, for the runs on
  concrete inputs.
\<close>

lemmas test_defs =
  test_runtime_def test_config_def test_env_def test_tokens_def test_session_def
  fresh_state_def cached_state_def held_state_def restarted_state_def near_expiry_env_def
  no_client_record_def no_tokens_record_def no_expiry_session_def timeout_env_def
  zero_expiry_state_def renewed_tokens_def renewal_env_def

lemmas op_defs =
  authorize_def full_authorization_def obtain_session_def performAuthorizationFlow_def
  exchange_code_def registerClient_def discoverMetadata_def use_defaults_def
  getAuthBaseUrl_def loadSession_def saveSession_def access_token_of_def
  close_server_def js_ge_def js_minus_def expiry_of_def refresh_due_def
  getAccessToken_def refresh_session_def refreshAccessToken_def new_events_def
  default_metadata_def Let_def case_prod_beta

lemma emit_fields [simp]:
  "metadata (emit e s) = metadata s" "session (emit e s) = session s"
  "disk (emit e s) = disk s" "listening (emit e s) = listening s"
  "trace (emit e s) = trace s @ [e]"
  by (simp_all add: emit_def)

lemma logger_fields [simp]:
  "metadata (logger l m s) = metadata s" "session (logger l m s) = session s"
  "disk (logger l m s) = disk s" "listening (logger l m s) = listening s"
  "trace (logger l m s) = trace s @ [Log l m]"
  by (simp_all add: logger_def)

lemma loadSession_frame:
  "metadata (snd (loadSession rt ev s)) = metadata s"
  "session (snd (loadSession rt ev s)) = session s"
  "disk (snd (loadSession rt ev s)) = disk s"
  "listening (snd (loadSession rt ev s)) = listening s"
  by (simp_all add: loadSession_def Let_def split: session_file.split sum.split)

lemma loadSession_trace:
  "\<exists>evs. trace (snd (loadSession rt ev s)) = trace s @ evs \<and> filter is_network evs = []"
  by (simp add: loadSession_def Let_def split: session_file.split sum.split)

lemma loadSession_value:
  "fst (loadSession rt ev s) =
     (case disk s of
        Json v \<Rightarrow>
          (case get v ''expiresAt'' of
             Inl e \<Rightarrow> JUndefined
           | Inr x \<Rightarrow> if truthy x \<and> js_ge rt (now_load ev) x then JUndefined else v)
      | _ \<Rightarrow> JUndefined)"
  by (simp add: loadSession_def Let_def split: session_file.split sum.split)


lemma authorize_cached:
  assumes "truthy (fst (loadSession rt ev s))"
  shows "authorize rt cfg ev s =
     (access_token_of (fst (loadSession rt ev s)),
      logger LInfo ''Using saved OAuth session''
        ((snd (loadSession rt ev s))\<lparr>session := fst (loadSession rt ev s)\<rparr>))"
  using assms by (simp add: authorize_def Let_def case_prod_beta)

lemma authorize_full:
  assumes "\<not> truthy (fst (loadSession rt ev s))"
  shows "authorize rt cfg ev s =
     full_authorization rt cfg ev
       ((snd (loadSession rt ev s))\<lparr>session := fst (loadSession rt ev s)\<rparr>)"
  using assms by (simp add: authorize_def Let_def case_prod_beta)










subsection \<open>What \<^verbatim>\<open>discoverMetadata\<close> returns\<close>

lemma discoverMetadata_no_url:
  "url_origin rt (serverUrl cfg) = None \<Longrightarrow>
   discoverMetadata rt cfg ev s = (Inl TypeError, s)"
  by (simp add: discoverMetadata_def getAuthBaseUrl_def)

lemma discoverMetadata_value:
  assumes "url_origin rt (serverUrl cfg) = Some base"
  shows "fst (discoverMetadata rt cfg ev s) =
     Inr (case discovery ev of
            NetworkError \<Rightarrow> default_metadata base
          | Response ok text body \<Rightarrow>
              (if ok then (case body of None \<Rightarrow> default_metadata base | Some md \<Rightarrow> md)
               else default_metadata base))"
    and "Inr (metadata (snd (discoverMetadata rt cfg ev s))) = fst (discoverMetadata rt cfg ev s)"
  using assms
  by (simp_all add: discoverMetadata_def getAuthBaseUrl_def use_defaults_def Let_def
        split: fetch_result.split option.split)

lemma default_metadata_usable: "usable_metadata (default_metadata base)"
  by (simp add: usable_metadata_def default_metadata_def)

text \<open>
  Claim C6 as stated fails. A success response whose body is JSON is returned as parsed,
  whatever it holds. The body \<^verbatim>\<open>null\<close> is returned as null, which is neither usable
  metadata nor the fallback, and \<^verbatim>\<open>authorize\<close> then fails in the registration; the
  body \<^verbatim>\<open>{}\<close> is returned as an object without endpoints, and with a static client
  \<^verbatim>\<open>authorize\<close> fails where it builds the authorization URL. A server address that
  is no URL makes \<^verbatim>\<open>getAuthBaseUrl\<close> throw before the request, outside the
  \<^verbatim>\<open>try\<close> block, and that failure reaches the caller.
\<close>

theorem unvalidated_metadata_is_returned:
  "fst (discoverMetadata test_runtime test_config
          (test_env\<lparr>discovery := Response True ''null'' (Some JNull)\<rparr>) fresh_state)
     = Inr JNull
   \<and> \<not> usable_metadata JNull
   \<and> JNull \<noteq> default_metadata ''https://mcp.example.com''
   \<and> fst (authorize test_runtime test_config
          (test_env\<lparr>discovery := Response True ''null'' (Some JNull)\<rparr>) fresh_state)
     = Inl (Error ''OAuth client registration failed and no static client info provided'')
   \<and> fst (discoverMetadata test_runtime test_config
          (test_env\<lparr>discovery := Response True ''{}'' (Some (JObj []))\<rparr>) fresh_state)
     = Inr (JObj [])
   \<and> \<not> usable_metadata (JObj [])
   \<and> fst (authorize test_runtime (test_config\<lparr>staticClientInfo := JObj [(''client_id'', JStr ''client-0'')]\<rparr>)
          (test_env\<lparr>discovery := Response True ''{}'' (Some (JObj []))\<rparr>) fresh_state)
     = Inl TypeError
   \<and> discoverMetadata test_runtime (test_config\<lparr>serverUrl := ''mcp.example.com''\<rparr>)
        test_env fresh_state
     = (Inl TypeError, fresh_state)"
  by (simp add: op_defs test_defs usable_metadata_def)

text \<open>
  Claim C6, amended. \<^verbatim>\<open>discoverMetadata\<close> propagates no failure of the discovery
  request. When the server address is no URL it fails with the TypeError of
  \<^verbatim>\<open>new URL\<close> and leaves the state as it was. Otherwise it returns metadata for every
  outcome of the request and stores what it returns: after a network error, a
  non-success status or a body that is not JSON these are exactly the defaults built from
  the base address with the suffixes \<^verbatim>\<open>/authorize\<close>, \<^verbatim>\<open>/token\<close> and
  \<^verbatim>\<open>/register\<close>, which are usable; a success response whose body is JSON is returned
  as parsed, usable or not.
\<close>

theorem discoverMetadata_outcomes:
  "(url_origin rt (serverUrl cfg) = None \<longrightarrow>
      discoverMetadata rt cfg ev s = (Inl TypeError, s))
   \<and> (\<forall>base. url_origin rt (serverUrl cfg) = Some base \<longrightarrow>
        (\<exists>md. fst (discoverMetadata rt cfg ev s) = Inr md
             \<and> metadata (snd (discoverMetadata rt cfg ev s)) = md)
        \<and> (discovery ev = NetworkError
             \<or> (\<exists>text body. discovery ev = Response False text body)
             \<or> (\<exists>text. discovery ev = Response True text None)
           \<longrightarrow> fst (discoverMetadata rt cfg ev s) = Inr (default_metadata base))
        \<and> (\<forall>text md. discovery ev = Response True text (Some md)
             \<longrightarrow> fst (discoverMetadata rt cfg ev s) = Inr md)
        \<and> usable_metadata (default_metadata base)
        \<and> get (default_metadata base) ''authorization_endpoint''
            = Inr (JStr (base @ ''/authorize''))
        \<and> get (default_metadata base) ''token_endpoint'' = Inr (JStr (base @ ''/token''))
        \<and> get (default_metadata base) ''registration_endpoint''
            = Inr (JStr (base @ ''/register'')))"
proof -
  have none: "discoverMetadata rt cfg ev s = (Inl TypeError, s)"
    if "url_origin rt (serverUrl cfg) = None"
    using that by (rule discoverMetadata_no_url)
  have some: "(\<exists>md. fst (discoverMetadata rt cfg ev s) = Inr md
             \<and> metadata (snd (discoverMetadata rt cfg ev s)) = md)
        \<and> (discovery ev = NetworkError
             \<or> (\<exists>text body. discovery ev = Response False text body)
             \<or> (\<exists>text. discovery ev = Response True text None)
           \<longrightarrow> fst (discoverMetadata rt cfg ev s) = Inr (default_metadata base))
        \<and> (\<forall>text md. discovery ev = Response True text (Some md)
             \<longrightarrow> fst (discoverMetadata rt cfg ev s) = Inr md)"
    if base: "url_origin rt (serverUrl cfg) = Some base" for base
  proof -
    note v = discoverMetadata_value [OF base, of ev s]
    have "\<exists>md. fst (discoverMetadata rt cfg ev s) = Inr md
        \<and> metadata (snd (discoverMetadata rt cfg ev s)) = md"
      using v by (metis sum.inject(2))
    moreover have "fst (discoverMetadata rt cfg ev s) = Inr (default_metadata base)"
      if "discovery ev = NetworkError
          \<or> (\<exists>text body. discovery ev = Response False text body)
          \<or> (\<exists>text. discovery ev = Response True text None)"
      using that by (auto simp add: v(1))
    moreover have "fst (discoverMetadata rt cfg ev s) = Inr md"
      if "discovery ev = Response True body_text (Some md)" for body_text md
      using that by (simp add: v(1))
    ultimately show ?thesis by blast
  qed
  have endpoints: "get (default_metadata base) ''authorization_endpoint''
        = Inr (JStr (base @ ''/authorize''))
      \<and> get (default_metadata base) ''token_endpoint'' = Inr (JStr (base @ ''/token''))
      \<and> get (default_metadata base) ''registration_endpoint''
        = Inr (JStr (base @ ''/register''))" for base
    by (simp add: default_metadata_def)
  show ?thesis
    using none some default_metadata_usable endpoints by blast
qed

theorem discoverMetadata_outcomes_witness:
  "fst (discoverMetadata test_runtime test_config test_env fresh_state)
     = Inr (default_metadata ''https://mcp.example.com'')
   \<and> fst (discoverMetadata test_runtime test_config
            (test_env\<lparr>discovery := Response False ''Not Found'' None\<rparr>) fresh_state)
     = Inr (default_metadata ''https://mcp.example.com'')
   \<and> fst (discoverMetadata test_runtime test_config
            (test_env\<lparr>discovery := Response True ''<html>'' None\<rparr>) fresh_state)
     = Inr (default_metadata ''https://mcp.example.com'')
   \<and> fst (discoverMetadata test_runtime test_config
            (test_env\<lparr>discovery := Response True ''{}'' (Some (JObj []))\<rparr>) fresh_state)
     = Inr (JObj [])
   \<and> usable_metadata (default_metadata ''https://mcp.example.com'')
   \<and> get (default_metadata ''https://mcp.example.com'') ''token_endpoint''
     = Inr (JStr ''https://mcp.example.com/token'')
   \<and> discoverMetadata test_runtime (test_config\<lparr>serverUrl := ''mcp.example.com''\<rparr>)
        test_env fresh_state
     = (Inl TypeError, fresh_state)"
proof -
  have base: "url_origin test_runtime (serverUrl test_config) = Some ''https://mcp.example.com''"
    by (simp add: test_defs)
  have nobase: "url_origin test_runtime (serverUrl (test_config\<lparr>serverUrl := ''mcp.example.com''\<rparr>))
      = None"
    by (simp add: test_defs)
  have r1: "fst (discoverMetadata test_runtime test_config test_env fresh_state)
      = Inr (default_metadata ''https://mcp.example.com'')"
  proof -
    have "discovery test_env = NetworkError" by (simp add: test_env_def)
    with discoverMetadata_outcomes [of test_runtime test_config test_env fresh_state] base
    show ?thesis by blast
  qed
  have r2: "fst (discoverMetadata test_runtime test_config
            (test_env\<lparr>discovery := Response False ''Not Found'' None\<rparr>) fresh_state)
      = Inr (default_metadata ''https://mcp.example.com'')"
  proof -
    have "discovery (test_env\<lparr>discovery := Response False ''Not Found'' None\<rparr>)
        = Response False ''Not Found'' None" by simp
    with discoverMetadata_outcomes [of test_runtime test_config
        "test_env\<lparr>discovery := Response False ''Not Found'' None\<rparr>" fresh_state] base
    show ?thesis by blast
  qed
  have r3: "fst (discoverMetadata test_runtime test_config
            (test_env\<lparr>discovery := Response True ''<html>'' None\<rparr>) fresh_state)
      = Inr (default_metadata ''https://mcp.example.com'')"
  proof -
    have "discovery (test_env\<lparr>discovery := Response True ''<html>'' None\<rparr>)
        = Response True ''<html>'' None" by simp
    with discoverMetadata_outcomes [of test_runtime test_config
        "test_env\<lparr>discovery := Response True ''<html>'' None\<rparr>" fresh_state] base
    show ?thesis by blast
  qed
  have r4: "fst (discoverMetadata test_runtime test_config
            (test_env\<lparr>discovery := Response True ''{}'' (Some (JObj []))\<rparr>) fresh_state)
      = Inr (JObj [])"
  proof -
    have "discovery (test_env\<lparr>discovery := Response True ''{}'' (Some (JObj []))\<rparr>)
        = Response True ''{}'' (Some (JObj []))" by simp
    with discoverMetadata_outcomes [of test_runtime test_config
        "test_env\<lparr>discovery := Response True ''{}'' (Some (JObj []))\<rparr>" fresh_state] base
    show ?thesis by blast
  qed
  have r5: "usable_metadata (default_metadata ''https://mcp.example.com'')
      \<and> get (default_metadata ''https://mcp.example.com'') ''token_endpoint''
        = Inr (JStr ''https://mcp.example.com/token'')"
    using discoverMetadata_outcomes [of test_runtime test_config test_env fresh_state] base
    by simp
  have r6: "discoverMetadata test_runtime (test_config\<lparr>serverUrl := ''mcp.example.com''\<rparr>)
        test_env fresh_state = (Inl TypeError, fresh_state)"
    using discoverMetadata_outcomes [of test_runtime
        "test_config\<lparr>serverUrl := ''mcp.example.com''\<rparr>" test_env fresh_state] nobase
    by blast
  from r1 r2 r3 r4 r5 r6 show ?thesis by blast
qed

subsection \<open>Every operation only adds events\<close>

lemma saveSession_extends:
  "prefix xs (trace s) \<Longrightarrow> prefix xs (trace (saveSession ev sess s))"
  by (simp add: saveSession_def split: save_outcome.split)

lemma loadSession_extends:
  "prefix xs (trace s) \<Longrightarrow> prefix xs (trace (snd (loadSession rt ev s)))"
  by (simp add: loadSession_def Let_def split: session_file.split sum.split)

lemma discoverMetadata_extends:
  "prefix xs (trace s) \<Longrightarrow> prefix xs (trace (snd (discoverMetadata rt cfg ev s)))"
  by (simp add: discoverMetadata_def use_defaults_def Let_def
        split: sum.split fetch_result.split option.split)

lemma registerClient_extends:
  "prefix xs (trace s) \<Longrightarrow> prefix xs (trace (snd (registerClient cfg ev md s)))"
  by (simp add: registerClient_def Let_def
        split: sum.split fetch_result.split option.split)

lemma authCodePromise_extends:
  "prefix xs (trace s) \<Longrightarrow> prefix xs (trace (snd (authCodePromise cb s)))"
  by (cases cb) (simp_all add: close_server_def)

lemma exchange_code_extends:
  "prefix xs (trace s) \<Longrightarrow>
   prefix xs (trace (snd (exchange_code cfg ev endpoint client_id code verifier s)))"
  by (simp add: exchange_code_def Let_def split: fetch_result.split option.split)

lemma performAuthorizationFlow_extends:
  "prefix xs (trace s) \<Longrightarrow>
   prefix xs (trace (snd (performAuthorizationFlow rt cfg ev md clientInfo s)))"
  by (simp add: performAuthorizationFlow_def Let_def case_prod_beta
        authCodePromise_extends exchange_code_extends
        split: sum.split)

lemma obtain_session_extends:
  "prefix xs (trace s) \<Longrightarrow>
   prefix xs (trace (snd (obtain_session rt cfg ev md clientInfo s)))"
  by (simp add: obtain_session_def Let_def case_prod_beta
        performAuthorizationFlow_extends saveSession_extends
        split: sum.split)

lemma full_authorization_extends:
  "prefix xs (trace s) \<Longrightarrow> prefix xs (trace (snd (full_authorization rt cfg ev s)))"
  by (simp add: full_authorization_def Let_def case_prod_beta
        discoverMetadata_extends registerClient_extends obtain_session_extends
        split: sum.split)

lemma authorize_extends:
  "prefix xs (trace s) \<Longrightarrow> prefix xs (trace (snd (authorize rt cfg ev s)))"
  by (simp add: authorize_def Let_def case_prod_beta
        loadSession_extends full_authorization_extends)

lemma refreshAccessToken_extends:
  "prefix xs (trace s) \<Longrightarrow> prefix xs (trace (snd (refreshAccessToken ev s)))"
  by (simp add: refreshAccessToken_def Let_def
        split: sum.split fetch_result.split option.split)

lemma refresh_session_extends:
  "prefix xs (trace s) \<Longrightarrow> prefix xs (trace (snd (refresh_session rt ev s)))"
  by (simp add: refresh_session_def Let_def case_prod_beta
        refreshAccessToken_extends saveSession_extends
        split: sum.split)


subsection \<open>The branches of \<^verbatim>\<open>getAccessToken\<close>\<close>

lemma getAccessToken_no_session:
  "\<not> truthy (session s) \<Longrightarrow> getAccessToken rt cfg ev s = authorize rt cfg ev s"
  by (simp add: getAccessToken_def)

lemma getAccessToken_not_due:
  assumes "truthy (session s)" "get (session s) ''expiresAt'' = Inr x"
    and "\<not> refresh_due rt (now_check ev) x"
  shows "getAccessToken rt cfg ev s = (access_token_of (session s), s)"
  using assms by (simp add: getAccessToken_def)

lemma getAccessToken_refresh_failed:
  assumes "truthy (session s)" "get (session s) ''expiresAt'' = Inr x"
    and "refresh_due rt (now_check ev) x"
    and "fst (refresh_session rt ev s) = Inl e"
  shows "getAccessToken rt cfg ev s =
     authorize rt cfg ev
       (logger LWarn ''Token refresh failed, re-authorizing:'' (snd (refresh_session rt ev s)))"
  using assms by (simp add: getAccessToken_def case_prod_beta)

lemma getAccessToken_refreshed:
  assumes "truthy (session s)" "get (session s) ''expiresAt'' = Inr x"
    and "refresh_due rt (now_check ev) x"
    and "fst (refresh_session rt ev s) = Inr u"
  shows "getAccessToken rt cfg ev s =
     (access_token_of (session (snd (refresh_session rt ev s))), snd (refresh_session rt ev s))"
  using assms by (simp add: getAccessToken_def case_prod_beta)

lemma refresh_due_number:
  "t \<noteq> 0 \<Longrightarrow> refresh_due rt now (JNum t) \<longleftrightarrow> t - now \<le> 300000"
  by (auto simp add: refresh_due_def js_ge_def js_minus_def)

subsection \<open>A due refresh runs \<^verbatim>\<open>refreshAccessToken\<close>\<close>

lemma refresh_session_Inr:
  "fst (refresh_session rt ev s) = Inr u \<Longrightarrow> \<exists>tokens. fst (refreshAccessToken ev s) = Inr tokens"
  by (cases "fst (refreshAccessToken ev s)")
     (simp_all add: refresh_session_def case_prod_beta)

lemma refresh_session_extends_token:
  "prefix xs (trace (snd (refreshAccessToken ev s))) \<Longrightarrow>
   prefix xs (trace (snd (refresh_session rt ev s)))"
  by (simp add: refresh_session_def Let_def case_prod_beta saveSession_extends
        split: sum.split)

lemma expiring_session_object:
  "get sess ''expiresAt'' = Inr x \<Longrightarrow> truthy x \<Longrightarrow> \<exists>kvs. sess = JObj kvs"
  by (cases sess) auto

lemma refreshAccessToken_session: "session (snd (refreshAccessToken ev s)) = session s"
  by (simp add: refreshAccessToken_def Let_def
        split: sum.split fetch_result.split option.split)

lemma saveSession_frame:
  "session (saveSession ev sess s) = session s"
  "metadata (saveSession ev sess s) = metadata s"
  "listening (saveSession ev sess s) = listening s"
  "save ev = Saved \<Longrightarrow> disk (saveSession ev sess s) = Json (jsonify sess)"
  by (simp_all add: saveSession_def split: save_outcome.split)

lemma refresh_session_token_failed:
  "fst (refreshAccessToken ev s) = Inl e \<Longrightarrow>
   refresh_session rt ev s = (Inl e, snd (refreshAccessToken ev s))"
  by (simp add: refresh_session_def case_prod_beta)

lemma refresh_session_done:
  assumes "fst (refreshAccessToken ev s) = Inr tokens" "session s = JObj kvs"
    and "get tokens ''expires_in'' = Inr expires_in"
  shows "refresh_session rt ev s =
     (Inr (),
      saveSession ev
        (JObj (AList.update ''expiresAt'' (expiry_of rt (now_refresh ev) expires_in)
                 (AList.update ''tokens'' tokens kvs)))
        ((snd (refreshAccessToken ev s))
           \<lparr>session := JObj (AList.update ''expiresAt''
                             (expiry_of rt (now_refresh ev) expires_in)
                             (AList.update ''tokens'' tokens kvs))\<rparr>))"
  using assms
  by (simp add: refresh_session_def case_prod_beta Let_def refreshAccessToken_session)

lemma refresh_session_unreadable:
  assumes "fst (refreshAccessToken ev s) = Inr tokens" "session s = JObj kvs"
    and "get tokens ''expires_in'' = Inl e"
  shows "refresh_session rt ev s =
     (Inl e, (snd (refreshAccessToken ev s))\<lparr>session := JObj (AList.update ''tokens'' tokens kvs)\<rparr>)"
  using assms
  by (simp add: refresh_session_def case_prod_beta Let_def refreshAccessToken_session)

lemma refreshAccessToken_sends:
  assumes "truthy (metadata s)" "truthy (session s)"
    and "get (session s) ''tokens'' = Inr held" "get held ''refresh_token'' = Inr r" "truthy r"
    and "get (metadata s) ''token_endpoint'' = Inr endpoint"
    and "get (session s) ''clientInfo'' = Inr clientInfo"
    and "get clientInfo ''client_id'' = Inr client_id"
  shows "prefix (trace s @ [Log LInfo ''Refreshing access token'',
                           refresh_request endpoint r client_id])
           (trace (snd (refreshAccessToken ev s)))"
  using assms
  by (simp add: refreshAccessToken_def Let_def refresh_request_def
        split: fetch_result.split option.split)

lemma getAccessToken_extends_refresh:
  assumes "truthy (session s)" "get (session s) ''expiresAt'' = Inr x"
    and "refresh_due rt (now_check ev) x"
    and "prefix xs (trace (snd (refresh_session rt ev s)))"
  shows "prefix xs (trace (snd (getAccessToken rt cfg ev s)))"
proof (cases "fst (refresh_session rt ev s)")
  case (Inl e)
  have "prefix xs (trace (snd (authorize rt cfg ev
      (logger LWarn ''Token refresh failed, re-authorizing:'' (snd (refresh_session rt ev s))))))"
    using assms(4) by (intro authorize_extends) simp
  then show ?thesis
    by (simp add: getAccessToken_refresh_failed [OF assms(1-3) Inl])
next
  case (Inr u)
  then show ?thesis
    using assms(4) by (simp add: getAccessToken_refreshed [OF assms(1-3) Inr])
qed

lemma numeric_expiry_held: "get sess ''expiresAt'' = Inr (JNum t) \<Longrightarrow> truthy sess"
  by (cases sess) auto

lemma refresh_due_iff:
  "refresh_due rt now (JNum t) \<longleftrightarrow> t \<noteq> 0 \<and> t - now \<le> 300000"
  by (auto simp add: refresh_due_def js_ge_def js_minus_def)


lemma getAccessToken_renews:
  assumes "truthy (session s)" "get (session s) ''expiresAt'' = Inr x"
    and "refresh_due rt (now_check ev) x"
    and "fst (refreshAccessToken ev s) = Inr tokens"
    and "get tokens ''expires_in'' = Inr expires_in"
  shows "fst (getAccessToken rt cfg ev s) = get tokens ''access_token''"
    and "get (session (snd (getAccessToken rt cfg ev s))) ''tokens'' = Inr tokens"
    and "get (session (snd (getAccessToken rt cfg ev s))) ''expiresAt''
           = Inr (expiry_of rt (now_refresh ev) expires_in)"
    and "save ev = Saved \<Longrightarrow>
         disk (snd (getAccessToken rt cfg ev s))
           = Json (jsonify (session (snd (getAccessToken rt cfg ev s))))"
proof -
  have "truthy x" using assms(3) by (simp add: refresh_due_def)
  then obtain kvs where kvs: "session s = JObj kvs"
    using expiring_session_object [OF assms(2)] by blast
  note fin = refresh_session_done [OF assms(4) kvs assms(5), of rt]
  have run: "getAccessToken rt cfg ev s =
      (access_token_of (session (snd (refresh_session rt ev s))), snd (refresh_session rt ev s))"
    by (rule getAccessToken_refreshed [OF assms(1-3), of "()"]) (simp add: fin)
  show "fst (getAccessToken rt cfg ev s) = get tokens ''access_token''"
    by (simp add: run fin saveSession_frame access_token_of_def update_conv')
  show "get (session (snd (getAccessToken rt cfg ev s))) ''tokens'' = Inr tokens"
    by (simp add: run fin saveSession_frame update_conv')
  show "get (session (snd (getAccessToken rt cfg ev s))) ''expiresAt''
           = Inr (expiry_of rt (now_refresh ev) expires_in)"
    by (simp add: run fin saveSession_frame update_conv')
  show "disk (snd (getAccessToken rt cfg ev s))
           = Json (jsonify (session (snd (getAccessToken rt cfg ev s))))"
    if "save ev = Saved"
    using that by (simp add: run fin saveSession_frame)
qed

lemma getAccessToken_token_failed:
  assumes "truthy (session s)" "get (session s) ''expiresAt'' = Inr x"
    and "refresh_due rt (now_check ev) x"
    and "fst (refreshAccessToken ev s) = Inl e"
  shows "getAccessToken rt cfg ev s =
     authorize rt cfg ev
       (logger LWarn ''Token refresh failed, re-authorizing:'' (snd (refreshAccessToken ev s)))"
  using getAccessToken_refresh_failed [OF assms(1-3), of e cfg]
  by (simp add: refresh_session_token_failed [OF assms(4)])

lemma getAccessToken_tokens_unreadable:
  assumes "truthy (session s)" "get (session s) ''expiresAt'' = Inr x"
    and "refresh_due rt (now_check ev) x"
    and "fst (refreshAccessToken ev s) = Inr tokens"
    and "get tokens ''expires_in'' = Inl e"
    and "set_prop (session s) ''tokens'' tokens = Inr sess1"
  shows "getAccessToken rt cfg ev s =
     authorize rt cfg ev
       (logger LWarn ''Token refresh failed, re-authorizing:''
          ((snd (refreshAccessToken ev s))\<lparr>session := sess1\<rparr>))"
proof -
  have "truthy x" using assms(3) by (simp add: refresh_due_def)
  then obtain kvs where kvs: "session s = JObj kvs"
    using expiring_session_object [OF assms(2)] by blast
  have sess1: "sess1 = JObj (AList.update ''tokens'' tokens kvs)"
    using assms(6) kvs by simp
  show ?thesis
    using getAccessToken_refresh_failed [OF assms(1-3), of e cfg]
    by (simp add: refresh_session_unreadable [OF assms(4) kvs assms(5)] sess1)
qed

lemma getAccessToken_sends:
  assumes "truthy (session s)" "get (session s) ''expiresAt'' = Inr x"
    and "refresh_due rt (now_check ev) x"
    and "truthy (metadata s)"
    and "get (session s) ''tokens'' = Inr held" "get held ''refresh_token'' = Inr r" "truthy r"
    and "get (metadata s) ''token_endpoint'' = Inr endpoint"
    and "get (session s) ''clientInfo'' = Inr clientInfo"
    and "get clientInfo ''client_id'' = Inr client_id"
  shows "prefix (trace s @ [Log LInfo ''Refreshing access token'',
                           refresh_request endpoint r client_id])
           (trace (snd (getAccessToken rt cfg ev s)))"
proof -
  have "prefix (trace s @ [Log LInfo ''Refreshing access token'',
                           refresh_request endpoint r client_id])
           (trace (snd (refreshAccessToken ev s)))"
    by (rule refreshAccessToken_sends [OF assms(4) assms(1) assms(5-10)])
  then have "prefix (trace s @ [Log LInfo ''Refreshing access token'',
                           refresh_request endpoint r client_id])
           (trace (snd (refresh_session rt ev s)))"
    by (rule refresh_session_extends_token)
  then show ?thesis
    by (rule getAccessToken_extends_refresh [OF assms(1-3)])
qed

text \<open>
  Claim C4 as stated fails. The held session has the expiry 0, an absolute time long
  past at a clock of 1000000000 ms. The test of the source,
  \<^verbatim>\<open>this.session.expiresAt && Date.now() >= this.session.expiresAt - 300000\<close>, reads 0
  as "no expiry": \<^verbatim>\<open>getAccessToken\<close> returns the held access token and leaves the
  state, the events included, as it was, also when the token endpoint would grant the
  refresh.
\<close>

theorem zero_expiry_is_not_refreshed:
  "truthy (session zero_expiry_state)
   \<and> get (session zero_expiry_state) ''expiresAt'' = Inr (JNum 0)
   \<and> 0 - now_check test_env \<le> 300000
   \<and> getAccessToken test_runtime test_config test_env zero_expiry_state
       = (Inr (JStr ''at-1''), zero_expiry_state)
   \<and> new_events zero_expiry_state
        (snd (getAccessToken test_runtime test_config test_env zero_expiry_state)) = []
   \<and> fst (getAccessToken test_runtime test_config
             (test_env\<lparr>refresh := Response True [] (Some renewed_tokens)\<rparr>) zero_expiry_state)
       = Inr (JStr ''at-1'')"
  by (simp add: op_defs test_defs new_events_def)

text \<open>
  Claim C4, amended. Let the held session have a number \<open>t\<close> as its \<^verbatim>\<open>expiresAt\<close>.
  When \<open>t\<close> is 0 or more than 300000 ms after the clock, \<^verbatim>\<open>getAccessToken\<close> returns
  the held access token and leaves the state, the events included, as it was: no refresh
  and no I/O. When \<open>t\<close> is not 0 and at most 300000 ms after the clock, or before it, the
  call refreshes, and is decided by what \<^verbatim>\<open>refreshAccessToken\<close> does on the state:
  if that fails, the call is \<^verbatim>\<open>authorize\<close> after the warning; if it returns tokens
  with a readable \<^verbatim>\<open>expires_in\<close>, the call returns their access token, and the session
  holds them with the new expiry and is persisted; if \<^verbatim>\<open>expires_in\<close> cannot be read
  of them, the call is \<^verbatim>\<open>authorize\<close> again; and whenever metadata, refresh token and
  client id are there, the first events of the call are the log line and the refresh
  request to the token endpoint. A refresh request among the events of a call means that
  \<open>t\<close> is not 0 and within the window. At 299 s the request is sent, at 301 s nothing
  happens (the witness).
\<close>

theorem refresh_window:
  assumes "get (session s) ''expiresAt'' = Inr (JNum t)"
  shows "(t = 0 \<or> 300000 < t - now_check ev \<longrightarrow>
            getAccessToken rt cfg ev s = (access_token_of (session s), s))
       \<and> (t \<noteq> 0 \<and> t - now_check ev \<le> 300000 \<longrightarrow>
            (\<forall>e. fst (refreshAccessToken ev s) = Inl e \<longrightarrow>
               getAccessToken rt cfg ev s =
                 authorize rt cfg ev
                   (logger LWarn ''Token refresh failed, re-authorizing:''
                      (snd (refreshAccessToken ev s))))
          \<and> (\<forall>tokens expires_in.
               fst (refreshAccessToken ev s) = Inr tokens \<longrightarrow>
               get tokens ''expires_in'' = Inr expires_in \<longrightarrow>
                 fst (getAccessToken rt cfg ev s) = get tokens ''access_token''
               \<and> get (session (snd (getAccessToken rt cfg ev s))) ''tokens'' = Inr tokens
               \<and> get (session (snd (getAccessToken rt cfg ev s))) ''expiresAt''
                   = Inr (expiry_of rt (now_refresh ev) expires_in)
               \<and> (save ev = Saved \<longrightarrow>
                    disk (snd (getAccessToken rt cfg ev s))
                      = Json (jsonify (session (snd (getAccessToken rt cfg ev s))))))
          \<and> (\<forall>tokens e sess1.
               fst (refreshAccessToken ev s) = Inr tokens \<longrightarrow>
               get tokens ''expires_in'' = Inl e \<longrightarrow>
               set_prop (session s) ''tokens'' tokens = Inr sess1 \<longrightarrow>
                 getAccessToken rt cfg ev s =
                   authorize rt cfg ev
                     (logger LWarn ''Token refresh failed, re-authorizing:''
                        ((snd (refreshAccessToken ev s))\<lparr>session := sess1\<rparr>)))
          \<and> (\<forall>held r endpoint clientInfo client_id.
               truthy (metadata s) \<longrightarrow>
               get (session s) ''tokens'' = Inr held \<longrightarrow>
               get held ''refresh_token'' = Inr r \<longrightarrow> truthy r \<longrightarrow>
               get (metadata s) ''token_endpoint'' = Inr endpoint \<longrightarrow>
               get (session s) ''clientInfo'' = Inr clientInfo \<longrightarrow>
               get clientInfo ''client_id'' = Inr client_id \<longrightarrow>
                 prefix (trace s @ [Log LInfo ''Refreshing access token'',
                                    refresh_request endpoint r client_id])
                   (trace (snd (getAccessToken rt cfg ev s)))))
       \<and> (\<forall>endpoint r client_id.
            refresh_request endpoint r client_id
              \<in> set (new_events s (snd (getAccessToken rt cfg ev s)))
            \<longrightarrow> t \<noteq> 0 \<and> t - now_check ev \<le> 300000)"
proof -
  have held: "truthy (session s)"
    by (rule numeric_expiry_held [OF assms])
  have far: "getAccessToken rt cfg ev s = (access_token_of (session s), s)"
    if "t = 0 \<or> 300000 < t - now_check ev"
    using that by (intro getAccessToken_not_due [OF held assms]) (auto simp add: refresh_due_iff)
  have quiet: "t \<noteq> 0 \<and> t - now_check ev \<le> 300000"
    if "refresh_request endpoint r client_id
          \<in> set (new_events s (snd (getAccessToken rt cfg ev s)))"
    for endpoint r client_id
  proof (rule ccontr)
    assume "\<not> (t \<noteq> 0 \<and> t - now_check ev \<le> 300000)"
    then have "t = 0 \<or> 300000 < t - now_check ev" by auto
    then have "new_events s (snd (getAccessToken rt cfg ev s)) = []"
      by (simp add: far new_events_def)
    with that show False by simp
  qed
  have near: "(\<forall>e. fst (refreshAccessToken ev s) = Inl e \<longrightarrow>
               getAccessToken rt cfg ev s =
                 authorize rt cfg ev
                   (logger LWarn ''Token refresh failed, re-authorizing:''
                      (snd (refreshAccessToken ev s))))
          \<and> (\<forall>tokens expires_in.
               fst (refreshAccessToken ev s) = Inr tokens \<longrightarrow>
               get tokens ''expires_in'' = Inr expires_in \<longrightarrow>
                 fst (getAccessToken rt cfg ev s) = get tokens ''access_token''
               \<and> get (session (snd (getAccessToken rt cfg ev s))) ''tokens'' = Inr tokens
               \<and> get (session (snd (getAccessToken rt cfg ev s))) ''expiresAt''
                   = Inr (expiry_of rt (now_refresh ev) expires_in)
               \<and> (save ev = Saved \<longrightarrow>
                    disk (snd (getAccessToken rt cfg ev s))
                      = Json (jsonify (session (snd (getAccessToken rt cfg ev s))))))
          \<and> (\<forall>tokens e sess1.
               fst (refreshAccessToken ev s) = Inr tokens \<longrightarrow>
               get tokens ''expires_in'' = Inl e \<longrightarrow>
               set_prop (session s) ''tokens'' tokens = Inr sess1 \<longrightarrow>
                 getAccessToken rt cfg ev s =
                   authorize rt cfg ev
                     (logger LWarn ''Token refresh failed, re-authorizing:''
                        ((snd (refreshAccessToken ev s))\<lparr>session := sess1\<rparr>)))
          \<and> (\<forall>held r endpoint clientInfo client_id.
               truthy (metadata s) \<longrightarrow>
               get (session s) ''tokens'' = Inr held \<longrightarrow>
               get held ''refresh_token'' = Inr r \<longrightarrow> truthy r \<longrightarrow>
               get (metadata s) ''token_endpoint'' = Inr endpoint \<longrightarrow>
               get (session s) ''clientInfo'' = Inr clientInfo \<longrightarrow>
               get clientInfo ''client_id'' = Inr client_id \<longrightarrow>
                 prefix (trace s @ [Log LInfo ''Refreshing access token'',
                                    refresh_request endpoint r client_id])
                   (trace (snd (getAccessToken rt cfg ev s))))"
    if "t \<noteq> 0 \<and> t - now_check ev \<le> 300000"
  proof -
    have d: "refresh_due rt (now_check ev) (JNum t)"
      using that by (simp add: refresh_due_iff)
    note a = getAccessToken_token_failed [OF held assms d, of _ cfg]
    note b = getAccessToken_renews [OF held assms d, of _ _ cfg]
    note c = getAccessToken_tokens_unreadable [OF held assms d, of _ _ _ cfg]
    note e = getAccessToken_sends [OF held assms d, of _ _ _ _ _ cfg]
    show ?thesis
      apply (intro conjI allI impI)
            apply (erule a)
           apply (erule (1) b(1))
          apply (erule (1) b(2))
         apply (erule (1) b(3))
        apply (erule (2) b(4))
       apply (erule (2) c)
      apply (erule (6) e)
      done
  qed
  show ?thesis
    using far near quiet by blast
qed

theorem refresh_window_witness:
  "getAccessToken test_runtime test_config
      (test_env\<lparr>now_check := 1003605000 - 301000\<rparr>) held_state
     = (Inr (JStr ''at-1''), held_state)
   \<and> prefix [Log LInfo ''Refreshing access token'',
              refresh_request (JStr ''https://mcp.example.com/token'') (JStr ''rt-1'')
                (JStr ''client-1'')]
        (trace (snd (getAccessToken test_runtime test_config near_expiry_env held_state)))
   \<and> fst (getAccessToken test_runtime test_config renewal_env held_state) = Inr (JStr ''at-2'')
   \<and> get (session (snd (getAccessToken test_runtime test_config renewal_env held_state)))
        ''expiresAt'' = Inr (JNum 1006907000)"
proof -
  have exp: "get (session held_state) ''expiresAt'' = Inr (JNum 1003605000)"
    by (simp add: held_state_def test_session_def)
  have tok: "access_token_of (session held_state) = Inr (JStr ''at-1'')"
    by (simp add: held_state_def test_session_def test_tokens_def access_token_of_def)
  have away: "(1003605000::int) = 0
      \<or> 300000 < 1003605000 - now_check (test_env\<lparr>now_check := 1003605000 - 301000\<rparr>)"
    by simp
  have a: "getAccessToken test_runtime test_config
      (test_env\<lparr>now_check := 1003605000 - 301000\<rparr>) held_state
     = (Inr (JStr ''at-1''), held_state)"
    using refresh_window [OF exp, where rt = test_runtime and cfg = test_config
        and ev = "test_env\<lparr>now_check := 1003605000 - 301000\<rparr>",
        THEN conjunct1, THEN mp, OF away]
    by (simp add: tok)
  have close: "(1003605000::int) \<noteq> 0 \<and> 1003605000 - now_check near_expiry_env \<le> 300000"
    by (simp add: near_expiry_env_def)
  have m: "truthy (metadata held_state)"
    "get (session held_state) ''tokens'' = Inr test_tokens"
    "get test_tokens ''refresh_token'' = Inr (JStr ''rt-1'')"
    "truthy (JStr ''rt-1'')"
    "get (metadata held_state) ''token_endpoint'' = Inr (JStr ''https://mcp.example.com/token'')"
    "get (session held_state) ''clientInfo'' = Inr (JObj [(''client_id'', JStr ''client-1'')])"
    "get (JObj [(''client_id'', JStr ''client-1'')]) ''client_id'' = Inr (JStr ''client-1'')"
    by (simp_all add: held_state_def test_session_def test_tokens_def default_metadata_def)
  have tr: "trace held_state = []"
    by (simp add: held_state_def)
  note near = refresh_window [OF exp, where rt = test_runtime and cfg = test_config
        and ev = near_expiry_env, THEN conjunct2, THEN conjunct1, THEN mp, OF close]
  have "prefix (trace held_state @ [Log LInfo ''Refreshing access token'',
              refresh_request (JStr ''https://mcp.example.com/token'') (JStr ''rt-1'')
                (JStr ''client-1'')])
        (trace (snd (getAccessToken test_runtime test_config near_expiry_env held_state)))"
    by (rule near [THEN conjunct2, THEN conjunct2, THEN conjunct2, rule_format, OF m])
  then have b: "prefix [Log LInfo ''Refreshing access token'',
              refresh_request (JStr ''https://mcp.example.com/token'') (JStr ''rt-1'')
                (JStr ''client-1'')]
        (trace (snd (getAccessToken test_runtime test_config near_expiry_env held_state)))"
    by (simp add: tr)
  have close2: "(1003605000::int) \<noteq> 0 \<and> 1003605000 - now_check renewal_env \<le> 300000"
    by (simp add: renewal_env_def near_expiry_env_def)
  have granted: "fst (refreshAccessToken renewal_env held_state) = Inr renewed_tokens"
    by (simp add: op_defs test_defs)
  have secs: "get renewed_tokens ''expires_in'' = Inr (JNum 3600)"
    by (simp add: renewed_tokens_def)
  have clock: "now_refresh renewal_env = 1003307000"
    by (simp add: renewal_env_def)
  note renew = refresh_window [OF exp, where rt = test_runtime and cfg = test_config
        and ev = renewal_env, THEN conjunct2, THEN conjunct1, THEN mp, OF close2,
        THEN conjunct2, THEN conjunct1, rule_format, OF granted secs]
  have c: "fst (getAccessToken test_runtime test_config renewal_env held_state)
      = Inr (JStr ''at-2'')"
    using renew [THEN conjunct1] by (simp add: renewed_tokens_def)
  have d: "get (session (snd (getAccessToken test_runtime test_config renewal_env held_state)))
        ''expiresAt'' = Inr (JNum 1006907000)"
    using renew [THEN conjunct2, THEN conjunct2, THEN conjunct1]
    by (simp add: clock expiry_of_def)
  from a b c d show ?thesis by blast
qed

lemma getAccessToken_repeat_unchanged:
  assumes "\<forall>ev\<in>set evs. getAccessToken rt cfg ev s = (r, s)"
  shows "repeat_call (getAccessToken rt cfg) evs s = (replicate (length evs) r, s)"
  using assms by (induction evs) simp_all

text \<open>
  Claim C9. A record without an \<^verbatim>\<open>expiresAt\<close> field never expires: \<^verbatim>\<open>loadSession\<close>
  returns it whatever the clock reads, and with it as the held session
  \<^verbatim>\<open>getAccessToken\<close> returns its access token and leaves the state, the events
  included, untouched, at every call of any sequence of calls: the call adds no event,
  so no refresh attempt and no I/O. Such a record is what \<^verbatim>\<open>authorize\<close> persists when the token response has no
  \<^verbatim>\<open>expires_in\<close>: the expiry it computes is undefined, and the saved record has no
  \<^verbatim>\<open>expiresAt\<close> field.
\<close>

theorem no_expiry_never_refreshed:
  assumes "map_of kvs ''expiresAt'' = None"
    and "access_token_of (JObj kvs) = Inr token"
  shows "(disk s = Json (JObj kvs) \<longrightarrow> fst (loadSession rt ev s) = JObj kvs)
       \<and> (session s = JObj kvs \<longrightarrow>
            getAccessToken rt cfg ev s = (Inr token, s)
            \<and> repeat_call (getAccessToken rt cfg) evs s = (replicate (length evs) (Inr token), s)
            \<and> new_events s (snd (getAccessToken rt cfg ev s)) = [])
       \<and> expiry_of rt now JUndefined = JUndefined
       \<and> jsonify (JObj [(''clientInfo'', clientInfo), (''tokens'', tokens),
                        (''expiresAt'', expiry_of rt now JUndefined)])
          = jsonify (JObj [(''clientInfo'', clientInfo), (''tokens'', tokens)])"
proof -
  have noexp: "get (JObj kvs) ''expiresAt'' = Inr JUndefined"
    using assms(1) by simp
  have load: "fst (loadSession rt ev s) = JObj kvs" if "disk s = Json (JObj kvs)"
    using that noexp by (simp add: loadSession_value)
  have one: "getAccessToken rt cfg ev' s = (Inr token, s)" if "session s = JObj kvs" for ev'
  proof -
    have "\<not> refresh_due rt (now_check ev') JUndefined"
      by (simp add: refresh_due_def)
    then have "getAccessToken rt cfg ev' s = (access_token_of (session s), s)"
      using that noexp by (intro getAccessToken_not_due) simp_all
    then show ?thesis using that assms(2) by simp
  qed
  have many: "repeat_call (getAccessToken rt cfg) evs s = (replicate (length evs) (Inr token), s)"
    if "session s = JObj kvs"
    using one [OF that] by (intro getAccessToken_repeat_unchanged) simp
  have quiet: "new_events s (snd (getAccessToken rt cfg ev s)) = []"
    if "session s = JObj kvs"
    using one [OF that] by (simp add: new_events_def)
  have "expiry_of rt now JUndefined = JUndefined"
    by (simp add: expiry_of_def)
  then show ?thesis
    using load one many quiet by simp
qed

theorem no_expiry_never_refreshed_witness:
  "fst (loadSession test_runtime (test_env\<lparr>now_load := 9000000000000\<rparr>)
          (fresh_state\<lparr>disk := Json no_expiry_session\<rparr>)) = no_expiry_session
   \<and> getAccessToken test_runtime test_config (test_env\<lparr>now_check := 9000000000000\<rparr>)
        (fresh_state\<lparr>session := no_expiry_session\<rparr>)
      = (Inr (JStr ''at-1''), fresh_state\<lparr>session := no_expiry_session\<rparr>)
   \<and> repeat_call (getAccessToken test_runtime test_config)
        [test_env, test_env\<lparr>now_check := 9000000000000\<rparr>]
        (fresh_state\<lparr>session := no_expiry_session\<rparr>)
      = ([Inr (JStr ''at-1''), Inr (JStr ''at-1'')], fresh_state\<lparr>session := no_expiry_session\<rparr>)"
proof -
  have nofield: "map_of [(''clientInfo'', JObj [(''client_id'', JStr ''client-1'')]),
      (''tokens'', JObj [(''access_token'', JStr ''at-1''), (''token_type'', JStr ''Bearer'')])]
      ''expiresAt'' = None"
    by simp
  have tok: "access_token_of (JObj [(''clientInfo'', JObj [(''client_id'', JStr ''client-1'')]),
      (''tokens'', JObj [(''access_token'', JStr ''at-1''), (''token_type'', JStr ''Bearer'')])])
      = Inr (JStr ''at-1'')"
    by (simp add: access_token_of_def)
  show ?thesis
    using no_expiry_never_refreshed [OF nofield tok,
        where s = "fresh_state\<lparr>disk := Json no_expiry_session\<rparr>" and rt = test_runtime
          and ev = "test_env\<lparr>now_load := 9000000000000\<rparr>"]
      no_expiry_never_refreshed [OF nofield tok,
        where s = "fresh_state\<lparr>session := no_expiry_session\<rparr>" and rt = test_runtime
          and cfg = test_config and ev = "test_env\<lparr>now_check := 9000000000000\<rparr>"
          and evs = "[test_env, test_env\<lparr>now_check := 9000000000000\<rparr>]"]
    by (simp add: no_expiry_session_def)
qed

subsection \<open>What \<^verbatim>\<open>loadSession\<close> accepts\<close>

text \<open>
  Claim C1 as stated fails. A record with tokens and a future expiry but no
  \<^verbatim>\<open>clientInfo\<close> is loaded, and \<^verbatim>\<open>authorize\<close> returns its access token without any
  network event; a record with \<^verbatim>\<open>clientInfo\<close> only is loaded too, and \<^verbatim>\<open>authorize\<close>
  then fails on \<^verbatim>\<open>this.session.tokens.access_token\<close>, again without any network event.
  With no record at all the same call performs the full authorization (seven network
  events).
\<close>

theorem incomplete_record_is_loaded:
  "fst (loadSession test_runtime test_env (fresh_state\<lparr>disk := Json no_client_record\<rparr>))
     = no_client_record
   \<and> get no_client_record ''clientInfo'' = Inr JUndefined
   \<and> fst (authorize test_runtime test_config test_env (fresh_state\<lparr>disk := Json no_client_record\<rparr>))
     = Inr (JStr ''at-0'')
   \<and> filter is_network (trace (snd (authorize test_runtime test_config test_env
        (fresh_state\<lparr>disk := Json no_client_record\<rparr>)))) = []
   \<and> fst (loadSession test_runtime test_env (fresh_state\<lparr>disk := Json no_tokens_record\<rparr>))
     = no_tokens_record
   \<and> get no_tokens_record ''tokens'' = Inr JUndefined
   \<and> fst (authorize test_runtime test_config test_env
        (fresh_state\<lparr>disk := Json no_tokens_record\<rparr>)) = Inl TypeError
   \<and> filter is_network (trace (snd (authorize test_runtime test_config test_env
        (fresh_state\<lparr>disk := Json no_tokens_record\<rparr>)))) = []
   \<and> fst (loadSession test_runtime test_env fresh_state) = JUndefined
   \<and> fst (authorize test_runtime test_config test_env fresh_state) = Inr (JStr ''at-1'')
   \<and> length (filter is_network (trace (snd (authorize test_runtime test_config test_env
        fresh_state)))) = 7"
  by (simp add: op_defs test_defs no_client_record_def)

text \<open>
  Claim C1, amended. \<^verbatim>\<open>loadSession\<close> returns a value only if the file parses to it and
  its \<^verbatim>\<open>expiresAt\<close> is falsy or not yet reached; a missing file, a file that cannot be
  read or parsed or that holds null, and a record whose numeric expiry is not strictly
  after the clock all give undefined, and \<^verbatim>\<open>authorize\<close> then performs the full
  authorization. No field is required: a record whose \<^verbatim>\<open>expiresAt\<close> is absent (or
  falsy) is returned as parsed, and on any truthy loaded value \<^verbatim>\<open>authorize\<close> takes
  the cache-hit path: it answers with \<^verbatim>\<open>tokens.access_token\<close> of that value (an error
  when \<^verbatim>\<open>tokens\<close> is missing) and adds no network event.
\<close>

theorem loadSession_policy:
  "(fst (loadSession rt ev s) \<noteq> JUndefined \<longrightarrow>
      (\<exists>v x. disk s = Json v \<and> fst (loadSession rt ev s) = v
           \<and> get v ''expiresAt'' = Inr x \<and> \<not> (truthy x \<and> js_ge rt (now_load ev) x)))
   \<and> (disk s = NoFile \<or> disk s = Garbage \<or> disk s = Json JNull
        \<longrightarrow> fst (loadSession rt ev s) = JUndefined)
   \<and> (\<forall>v t. disk s = Json v \<longrightarrow> get v ''expiresAt'' = Inr (JNum t) \<longrightarrow> t \<noteq> 0
        \<longrightarrow> fst (loadSession rt ev s) = (if now_load ev < t then v else JUndefined))
   \<and> (\<forall>v x. disk s = Json v \<longrightarrow> get v ''expiresAt'' = Inr x \<longrightarrow> \<not> truthy x
        \<longrightarrow> fst (loadSession rt ev s) = v)
   \<and> (\<not> truthy (fst (loadSession rt ev s)) \<longrightarrow>
        authorize rt cfg ev s =
          full_authorization rt cfg ev
            ((snd (loadSession rt ev s))\<lparr>session := fst (loadSession rt ev s)\<rparr>))
   \<and> (truthy (fst (loadSession rt ev s)) \<longrightarrow>
        fst (authorize rt cfg ev s) = access_token_of (fst (loadSession rt ev s))
        \<and> filter is_network (new_events s (snd (authorize rt cfg ev s))) = [])"
proof -
  have returned: "\<exists>v x. disk s = Json v \<and> fst (loadSession rt ev s) = v
      \<and> get v ''expiresAt'' = Inr x \<and> \<not> (truthy x \<and> js_ge rt (now_load ev) x)"
    if "fst (loadSession rt ev s) \<noteq> JUndefined"
    using that
    by (cases "disk s") (auto simp add: loadSession_value split: sum.splits if_splits)
  have absent: "fst (loadSession rt ev s) = JUndefined"
    if "disk s = NoFile \<or> disk s = Garbage \<or> disk s = Json JNull"
    using that by (auto simp add: loadSession_value)
  have dated: "fst (loadSession rt ev s) = (if now_load ev < t then v else JUndefined)"
    if "disk s = Json v" "get v ''expiresAt'' = Inr (JNum t)" "t \<noteq> 0" for v t
    using that by (auto simp add: loadSession_value js_ge_def)
  have undated: "fst (loadSession rt ev s) = v"
    if "disk s = Json v" "get v ''expiresAt'' = Inr x" "\<not> truthy x" for v x
    using that by (simp add: loadSession_value)
  have hit: "fst (authorize rt cfg ev s) = access_token_of (fst (loadSession rt ev s))
      \<and> filter is_network (new_events s (snd (authorize rt cfg ev s))) = []"
    if "truthy (fst (loadSession rt ev s))"
  proof -
    obtain evs where "trace (snd (loadSession rt ev s)) = trace s @ evs"
      "filter is_network evs = []"
      using loadSession_trace by blast
    then show ?thesis
      by (simp add: authorize_cached [OF that] new_events_def)
  qed
  show ?thesis
    using returned absent dated undated hit authorize_full [of rt ev s cfg]
    by blast
qed

theorem loadSession_policy_witness:
  "fst (loadSession test_runtime test_env (fresh_state\<lparr>disk := Garbage\<rparr>)) = JUndefined
   \<and> fst (loadSession test_runtime (test_env\<lparr>now_load := 1003605000\<rparr>) cached_state) = JUndefined
   \<and> fst (loadSession test_runtime (test_env\<lparr>now_load := 1003604999\<rparr>) cached_state) = test_session
   \<and> fst (loadSession test_runtime test_env (fresh_state\<lparr>disk := Json no_tokens_record\<rparr>))
      = no_tokens_record
   \<and> authorize test_runtime test_config test_env (fresh_state\<lparr>disk := Garbage\<rparr>)
      = full_authorization test_runtime test_config test_env
          ((snd (loadSession test_runtime test_env (fresh_state\<lparr>disk := Garbage\<rparr>)))
             \<lparr>session := fst (loadSession test_runtime test_env (fresh_state\<lparr>disk := Garbage\<rparr>))\<rparr>)"
proof -
  have exp: "get test_session ''expiresAt'' = Inr (JNum 1003605000)"
    by (simp add: test_session_def)
  have noexp: "get no_tokens_record ''expiresAt'' = Inr JUndefined"
    by (simp add: no_tokens_record_def)
  note garbage = loadSession_policy [of test_runtime test_env "fresh_state\<lparr>disk := Garbage\<rparr>"
      test_config]
  note at_expiry = loadSession_policy [of test_runtime "test_env\<lparr>now_load := 1003605000\<rparr>"
      cached_state test_config]
  note before = loadSession_policy [of test_runtime "test_env\<lparr>now_load := 1003604999\<rparr>"
      cached_state test_config]
  note partial = loadSession_policy [of test_runtime test_env
      "fresh_state\<lparr>disk := Json no_tokens_record\<rparr>" test_config]
  have g: "fst (loadSession test_runtime test_env (fresh_state\<lparr>disk := Garbage\<rparr>)) = JUndefined"
    using garbage by simp
  have a: "fst (loadSession test_runtime (test_env\<lparr>now_load := 1003605000\<rparr>) cached_state)
      = JUndefined"
    using at_expiry exp by (simp add: cached_state_def)
  have b: "fst (loadSession test_runtime (test_env\<lparr>now_load := 1003604999\<rparr>) cached_state)
      = test_session"
    using before exp by (simp add: cached_state_def)
  have p: "fst (loadSession test_runtime test_env (fresh_state\<lparr>disk := Json no_tokens_record\<rparr>))
      = no_tokens_record"
    using partial noexp by simp
  from g garbage have f: "authorize test_runtime test_config test_env (fresh_state\<lparr>disk := Garbage\<rparr>)
      = full_authorization test_runtime test_config test_env
          ((snd (loadSession test_runtime test_env (fresh_state\<lparr>disk := Garbage\<rparr>)))
             \<lparr>session := fst (loadSession test_runtime test_env (fresh_state\<lparr>disk := Garbage\<rparr>))\<rparr>)"
    by simp
  from g a b p f show ?thesis by simp
qed

subsection \<open>A failed registration\<close>

text \<open>
  Claim C8 as stated fails. The registration endpoint answers with a non-success status
  and the text \<^verbatim>\<open>invalid_redirect_uri\<close>: \<^verbatim>\<open>registerClient\<close> fails with that text,
  but the error of \<^verbatim>\<open>authorize\<close> is a fixed message that does not contain it, the
  same for another server text.
\<close>

theorem registration_text_is_dropped:
  "\<not> sublist ''invalid_redirect_uri''
      ''OAuth client registration failed and no static client info provided''
   \<and> fst (registerClient test_config
          (test_env\<lparr>registration := Response False ''invalid_redirect_uri'' None\<rparr>)
          (default_metadata ''https://mcp.example.com'') fresh_state)
     = Inl (Error ''Client registration failed: invalid_redirect_uri'')
   \<and> fst (authorize test_runtime test_config
          (test_env\<lparr>registration := Response False ''invalid_redirect_uri'' None\<rparr>) fresh_state)
     = Inl (Error ''OAuth client registration failed and no static client info provided'')
   \<and> fst (authorize test_runtime test_config
          (test_env\<lparr>registration := Response False ''server_error'' None\<rparr>) fresh_state)
     = Inl (Error ''OAuth client registration failed and no static client info provided'')"
proof -
  have "\<not> sublist ''invalid_redirect_uri''
      ''OAuth client registration failed and no static client info provided''"
    by code_simp
  then show ?thesis
    by (simp add: op_defs test_defs)
qed

text \<open>
  Claim C8, amended. When dynamic registration receives a non-success response,
  \<^verbatim>\<open>registerClient\<close> fails with \<^verbatim>\<open>Client registration failed:\<close> followed by the
  server's text; \<^verbatim>\<open>authorize\<close> catches that failure, logs it as an error and fails
  with the fixed message
  \<^verbatim>\<open>OAuth client registration failed and no static client info provided\<close>.
\<close>

theorem registration_failure_is_generic:
  assumes "\<not> truthy (fst (loadSession rt ev s))"
    and "\<not> truthy (staticClientInfo cfg)"
    and "url_origin rt (serverUrl cfg) = Some base"
    and "registration ev = Response False text body"
    and "get md ''registration_endpoint'' = Inr endpoint" "truthy endpoint"
  shows "fst (registerClient cfg ev md s') = Inl (Error (''Client registration failed: '' @ text))
       \<and> fst (authorize rt cfg ev s)
           = Inl (Error ''OAuth client registration failed and no static client info provided'')
       \<and> Log LError ''Failed to register client:''
           = last (trace (snd (authorize rt cfg ev s)))"
proof -
  have reg: "fst (registerClient cfg ev md s') = Inl (Error (''Client registration failed: '' @ text))"
    using assms(4-6) by (simp add: registerClient_def Let_def)
  have any: "\<exists>e. fst (registerClient cfg ev md' s'') = Inl e" for md' s''
    using assms(4)
    by (cases "get md' ''registration_endpoint''") (simp_all add: registerClient_def Let_def)
  define s1 where "s1 = (snd (loadSession rt ev s))\<lparr>session := fst (loadSession rt ev s)\<rparr>"
  obtain md' where md': "fst (discoverMetadata rt cfg ev s1) = Inr md'"
    using discoverMetadata_value(1) [OF assms(3), of ev s1] by blast
  obtain e where e: "fst (registerClient cfg ev md' (snd (discoverMetadata rt cfg ev s1))) = Inl e"
    using any by blast
  have "authorize rt cfg ev s = full_authorization rt cfg ev s1"
    unfolding s1_def by (rule authorize_full [OF assms(1)])
  also have "\<dots> =
      (Inl (Error ''OAuth client registration failed and no static client info provided''),
       logger LError ''Failed to register client:''
         (snd (registerClient cfg ev md' (snd (discoverMetadata rt cfg ev s1)))))"
    using assms(2) md' e by (simp add: full_authorization_def case_prod_beta)
  finally show ?thesis using reg by simp
qed

theorem registration_failure_is_generic_witness:
  "fst (registerClient test_config
          (test_env\<lparr>registration := Response False ''invalid_redirect_uri'' None\<rparr>)
          (default_metadata ''https://mcp.example.com'') fresh_state)
     = Inl (Error ''Client registration failed: invalid_redirect_uri'')
   \<and> fst (authorize test_runtime test_config
          (test_env\<lparr>registration := Response False ''invalid_redirect_uri'' None\<rparr>) fresh_state)
     = Inl (Error ''OAuth client registration failed and no static client info provided'')"
proof -
  have a: "\<not> truthy (fst (loadSession test_runtime
      (test_env\<lparr>registration := Response False ''invalid_redirect_uri'' None\<rparr>) fresh_state))"
    by (simp add: loadSession_value fresh_state_def)
  have b: "\<not> truthy (staticClientInfo test_config)"
    by (simp add: test_config_def)
  have c: "url_origin test_runtime (serverUrl test_config) = Some ''https://mcp.example.com''"
    by (simp add: test_runtime_def test_config_def)
  have d: "registration (test_env\<lparr>registration := Response False ''invalid_redirect_uri'' None\<rparr>)
      = Response False ''invalid_redirect_uri'' None"
    by simp
  have e: "get (default_metadata ''https://mcp.example.com'') ''registration_endpoint''
      = Inr (JStr ''https://mcp.example.com/register'')"
    by (simp add: default_metadata_def)
  have f: "truthy (JStr ''https://mcp.example.com/register'')"
    by simp
  from registration_failure_is_generic [OF a b c d e f, of fresh_state]
  show ?thesis by simp
qed

subsection \<open>A manager without metadata\<close>

lemma loadSession_after_log:
  "fst (loadSession rt ev (logger l m s)) = fst (loadSession rt ev s)"
  by (simp add: loadSession_value)

lemma loadSession_same_disk:
  "disk s' = disk s \<Longrightarrow> fst (loadSession rt ev s') = fst (loadSession rt ev s)"
  by (simp add: loadSession_value)

lemma refreshAccessToken_disk: "disk (snd (refreshAccessToken ev s)) = disk s"
  by (simp add: refreshAccessToken_def Let_def
        split: sum.split fetch_result.split option.split)

lemma refresh_session_failed_disk:
  "fst (refresh_session rt ev s) = Inl e \<Longrightarrow> disk (snd (refresh_session rt ev s)) = disk s"
  by (simp add: refresh_session_def Let_def case_prod_beta refreshAccessToken_disk
        split: sum.splits)

lemma refreshAccessToken_no_metadata:
  "\<not> truthy (metadata s) \<Longrightarrow>
   refreshAccessToken ev s = (Inl (Error ''Cannot refresh token: no active session''), s)"
  by (simp add: refreshAccessToken_def)

lemma refresh_session_no_metadata:
  "\<not> truthy (metadata s) \<Longrightarrow>
   refresh_session rt ev s = (Inl (Error ''Cannot refresh token: no active session''), s)"
  by (simp add: refresh_session_def refreshAccessToken_no_metadata)

lemma authorize_cached_metadata:
  "truthy (fst (loadSession rt ev s)) \<Longrightarrow> metadata (snd (authorize rt cfg ev s)) = metadata s"
  by (simp add: authorize_cached loadSession_frame)

lemma authorize_cached_quiet:
  assumes "truthy (fst (loadSession rt ev s))"
  shows "filter is_network (new_events s (snd (authorize rt cfg ev s))) = []"
proof -
  obtain evs where "trace (snd (loadSession rt ev s)) = trace s @ evs"
    "filter is_network evs = []"
    using loadSession_trace by blast
  then show ?thesis
    by (simp add: authorize_cached [OF assms] new_events_def)
qed

text \<open>
  Claim C10, amended. On a manager whose \<^verbatim>\<open>metadata\<close> field is unset, a cache hit of
  \<^verbatim>\<open>authorize\<close> leaves it unset, and \<^verbatim>\<open>refreshAccessToken\<close> fails with
  \<^verbatim>\<open>Cannot refresh token: no active session\<close> without any event. So once the expiry
  of the held session is within five minutes, \<^verbatim>\<open>getAccessToken\<close> logs the failure and
  calls \<^verbatim>\<open>authorize\<close>, which reads the persisted record again: while that record is
  unexpired its access token is returned with no network event and the field is still
  unset; the full authorization runs only when the record gives no session.
\<close>

theorem cached_session_cannot_refresh:
  assumes "\<not> truthy (metadata s)"
  shows "(truthy (fst (loadSession rt ev s)) \<longrightarrow>
            \<not> truthy (metadata (snd (authorize rt cfg ev s))))
       \<and> refreshAccessToken ev s = (Inl (Error ''Cannot refresh token: no active session''), s)
       \<and> (truthy (session s) \<and> get (session s) ''expiresAt'' = Inr x
            \<and> refresh_due rt (now_check ev) x \<longrightarrow>
          getAccessToken rt cfg ev s =
            authorize rt cfg ev (logger LWarn ''Token refresh failed, re-authorizing:'' s)
          \<and> (truthy (fst (loadSession rt ev s)) \<longrightarrow>
               fst (getAccessToken rt cfg ev s) = access_token_of (fst (loadSession rt ev s))
               \<and> filter is_network (new_events s (snd (getAccessToken rt cfg ev s))) = []
               \<and> \<not> truthy (metadata (snd (getAccessToken rt cfg ev s))))
          \<and> (\<not> truthy (fst (loadSession rt ev s)) \<longrightarrow>
               getAccessToken rt cfg ev s =
                 full_authorization rt cfg ev
                   ((snd (loadSession rt ev
                            (logger LWarn ''Token refresh failed, re-authorizing:'' s)))
                      \<lparr>session := fst (loadSession rt ev s)\<rparr>)))"
proof -
  let ?w = "logger LWarn ''Token refresh failed, re-authorizing:'' s"
  have keep: "\<not> truthy (metadata (snd (authorize rt cfg ev s)))"
    if "truthy (fst (loadSession rt ev s))"
    using assms by (simp add: authorize_cached_metadata [OF that])
  have nometa: "refreshAccessToken ev s = (Inl (Error ''Cannot refresh token: no active session''), s)"
    using assms by (rule refreshAccessToken_no_metadata)
  have fallback: "getAccessToken rt cfg ev s = authorize rt cfg ev ?w"
    if "truthy (session s)" "get (session s) ''expiresAt'' = Inr x"
      "refresh_due rt (now_check ev) x"
    using getAccessToken_refresh_failed [OF that, of "Error ''Cannot refresh token: no active session''" cfg]
    by (simp add: refresh_session_no_metadata [OF assms])
  have load: "fst (loadSession rt ev ?w) = fst (loadSession rt ev s)"
    by (rule loadSession_after_log)
  have again: "fst (authorize rt cfg ev ?w) = access_token_of (fst (loadSession rt ev s))
      \<and> filter is_network (new_events s (snd (authorize rt cfg ev ?w))) = []
      \<and> \<not> truthy (metadata (snd (authorize rt cfg ev ?w)))"
    if "truthy (fst (loadSession rt ev s))"
  proof -
    have t: "truthy (fst (loadSession rt ev ?w))" using that by (simp add: load)
    have "filter is_network (new_events ?w (snd (authorize rt cfg ev ?w))) = []"
      by (rule authorize_cached_quiet [OF t])
    moreover have "prefix (trace ?w) (trace (snd (authorize rt cfg ev ?w)))"
      by (rule authorize_extends) simp
    then obtain new where "trace (snd (authorize rt cfg ev ?w)) = trace ?w @ new"
      by (auto simp add: prefix_def)
    ultimately have "filter is_network (new_events s (snd (authorize rt cfg ev ?w))) = []"
      by (simp add: new_events_def)
    then show ?thesis
      using assms by (simp add: authorize_cached [OF t] load loadSession_frame)
  qed
  have full: "authorize rt cfg ev ?w =
      full_authorization rt cfg ev
        ((snd (loadSession rt ev ?w))\<lparr>session := fst (loadSession rt ev s)\<rparr>)"
    if "\<not> truthy (fst (loadSession rt ev s))"
    using authorize_full [of rt ev ?w cfg] that by (simp add: load)
  show ?thesis
    using keep nometa fallback again full by simp
qed

text \<open>
  Claim C10 as stated fails in its last part. In a new process with a persisted session
  that expires in 299 seconds, \<^verbatim>\<open>getAccessToken\<close> cannot refresh, calls
  \<^verbatim>\<open>authorize\<close> and gets the persisted access token back: no network event, so no
  full authorization.
\<close>

theorem cached_session_reused_after_failed_refresh:
  "metadata restarted_state = JUndefined
   \<and> session restarted_state = test_session
   \<and> get test_session ''expiresAt'' = Inr (JNum (now_check near_expiry_env + 299000))
   \<and> fst (getAccessToken test_runtime test_config near_expiry_env restarted_state)
      = Inr (JStr ''at-1'')
   \<and> filter is_network (new_events restarted_state
        (snd (getAccessToken test_runtime test_config near_expiry_env restarted_state))) = []"
  by (simp add: op_defs test_defs restarted_state_def near_expiry_env_def)

theorem cached_session_cannot_refresh_witness:
  "\<not> truthy (metadata restarted_state)
   \<and> refreshAccessToken near_expiry_env restarted_state
      = (Inl (Error ''Cannot refresh token: no active session''), restarted_state)
   \<and> getAccessToken test_runtime test_config near_expiry_env restarted_state
      = authorize test_runtime test_config near_expiry_env
          (logger LWarn ''Token refresh failed, re-authorizing:'' restarted_state)
   \<and> fst (getAccessToken test_runtime test_config near_expiry_env restarted_state)
      = Inr (JStr ''at-1'')
   \<and> filter is_network (new_events restarted_state
        (snd (getAccessToken test_runtime test_config near_expiry_env restarted_state))) = []"
proof -
  have m: "\<not> truthy (metadata restarted_state)"
    by (simp add: op_defs test_defs restarted_state_def)
  have s: "truthy (session restarted_state)"
    "get (session restarted_state) ''expiresAt'' = Inr (JNum 1003605000)"
    by (simp_all add: op_defs test_defs restarted_state_def)
  have d: "refresh_due test_runtime (now_check near_expiry_env) (JNum 1003605000)"
    by (simp add: refresh_due_number near_expiry_env_def test_env_def)
  have l: "fst (loadSession test_runtime near_expiry_env restarted_state) = test_session"
    by (simp add: op_defs test_defs restarted_state_def near_expiry_env_def)
  have t: "access_token_of test_session = Inr (JStr ''at-1'')" "truthy test_session"
    by (simp_all add: access_token_of_def test_session_def test_tokens_def)
  note inst = cached_session_cannot_refresh [OF m, of test_runtime near_expiry_env test_config
      "JNum 1003605000"]
  from inst have r: "refreshAccessToken near_expiry_env restarted_state
      = (Inl (Error ''Cannot refresh token: no active session''), restarted_state)"
    by blast
  from inst s d have step:
    "getAccessToken test_runtime test_config near_expiry_env restarted_state
       = authorize test_runtime test_config near_expiry_env
           (logger LWarn ''Token refresh failed, re-authorizing:'' restarted_state)
     \<and> (truthy (fst (loadSession test_runtime near_expiry_env restarted_state)) \<longrightarrow>
          fst (getAccessToken test_runtime test_config near_expiry_env restarted_state)
            = access_token_of (fst (loadSession test_runtime near_expiry_env restarted_state))
          \<and> filter is_network (new_events restarted_state
               (snd (getAccessToken test_runtime test_config near_expiry_env restarted_state))) = []
          \<and> \<not> truthy (metadata
               (snd (getAccessToken test_runtime test_config near_expiry_env restarted_state))))"
    by blast
  from step [THEN conjunct2] l t
  have again: "fst (getAccessToken test_runtime test_config near_expiry_env restarted_state)
        = Inr (JStr ''at-1'')
      \<and> filter is_network (new_events restarted_state
          (snd (getAccessToken test_runtime test_config near_expiry_env restarted_state))) = []"
    by simp
  from m r step [THEN conjunct1] again show ?thesis by blast
qed

subsection \<open>A failed refresh\<close>

lemma refreshAccessToken_success_case:
  "(case fst (refreshAccessToken ev s) of
      Inl e \<Rightarrow> True
    | Inr tokens \<Rightarrow>
        truthy (metadata s)
        \<and> (\<exists>text. refresh ev = Response True text (Some tokens))
        \<and> (\<exists>held r. get (session s) ''tokens'' = Inr held
               \<and> get held ''refresh_token'' = Inr r \<and> truthy r))"
  by (simp add: refreshAccessToken_def Let_def
        split: sum.split fetch_result.split option.split)

lemma refreshAccessToken_success:
  assumes "fst (refreshAccessToken ev s) = Inr tokens"
  shows "truthy (metadata s)"
    and "\<exists>text. refresh ev = Response True text (Some tokens)"
    and "\<exists>held r. get (session s) ''tokens'' = Inr held
           \<and> get held ''refresh_token'' = Inr r \<and> truthy r"
  using refreshAccessToken_success_case [where ev = ev and s = s] assms by simp_all

lemma refresh_session_failure_reasons:
  assumes "\<not> truthy (metadata s)
      \<or> (\<exists>held r. get (session s) ''tokens'' = Inr held
            \<and> get held ''refresh_token'' = Inr r \<and> \<not> truthy r)
      \<or> refresh ev = NetworkError
      \<or> (\<exists>text body. refresh ev = Response False text body)"
  shows "\<exists>e. fst (refresh_session rt ev s) = Inl e"
proof (cases "fst (refresh_session rt ev s)")
  case (Inl e)
  then show ?thesis by blast
next
  case (Inr u)
  then obtain tokens where ok: "fst (refreshAccessToken ev s) = Inr tokens"
    using refresh_session_Inr by blast
  from refreshAccessToken_success [OF ok] assms show ?thesis by auto
qed

text \<open>
  Claim C3, amended. For a held session whose refresh is due: the refresh fails when the
  metadata are missing, when the session has no refresh token, on a network error and on
  a non-success response; and whenever it fails, for whatever reason, \<^verbatim>\<open>getAccessToken\<close>
  does not surface that error: it logs a warning and its result, value or error, is the
  result of \<^verbatim>\<open>authorize\<close>. That call reads the persisted record first: if the record
  is still unexpired, its access token is returned with no authorization; only
  otherwise is the full authorization performed.
\<close>

theorem refresh_failure_falls_back:
  assumes "truthy (session s)" "get (session s) ''expiresAt'' = Inr x"
    and "refresh_due rt (now_check ev) x"
  shows "(\<not> truthy (metadata s)
          \<or> (\<exists>held r. get (session s) ''tokens'' = Inr held
                \<and> get held ''refresh_token'' = Inr r \<and> \<not> truthy r)
          \<or> refresh ev = NetworkError
          \<or> (\<exists>text body. refresh ev = Response False text body)
          \<longrightarrow> (\<exists>e. fst (refresh_session rt ev s) = Inl e))
       \<and> (\<forall>e. fst (refresh_session rt ev s) = Inl e \<longrightarrow>
            getAccessToken rt cfg ev s =
              authorize rt cfg ev
                (logger LWarn ''Token refresh failed, re-authorizing:''
                   (snd (refresh_session rt ev s)))
            \<and> (truthy (fst (loadSession rt ev s)) \<longrightarrow>
                 fst (getAccessToken rt cfg ev s) = access_token_of (fst (loadSession rt ev s)))
            \<and> (\<not> truthy (fst (loadSession rt ev s)) \<longrightarrow>
                 getAccessToken rt cfg ev s =
                   full_authorization rt cfg ev
                     ((snd (loadSession rt ev
                              (logger LWarn ''Token refresh failed, re-authorizing:''
                                 (snd (refresh_session rt ev s)))))
                        \<lparr>session := fst (loadSession rt ev s)\<rparr>)))"
proof -
  let ?w = "logger LWarn ''Token refresh failed, re-authorizing:'' (snd (refresh_session rt ev s))"
  have after: "getAccessToken rt cfg ev s = authorize rt cfg ev ?w
      \<and> (truthy (fst (loadSession rt ev s)) \<longrightarrow>
           fst (getAccessToken rt cfg ev s) = access_token_of (fst (loadSession rt ev s)))
      \<and> (\<not> truthy (fst (loadSession rt ev s)) \<longrightarrow>
           getAccessToken rt cfg ev s =
             full_authorization rt cfg ev
               ((snd (loadSession rt ev ?w))\<lparr>session := fst (loadSession rt ev s)\<rparr>))"
    if failed: "fst (refresh_session rt ev s) = Inl e" for e
  proof -
    have eq: "getAccessToken rt cfg ev s = authorize rt cfg ev ?w"
      by (rule getAccessToken_refresh_failed [OF assms failed])
    have "disk ?w = disk s"
      by (simp add: refresh_session_failed_disk [OF failed])
    then have load: "fst (loadSession rt ev ?w) = fst (loadSession rt ev s)"
      by (rule loadSession_same_disk)
    have "fst (authorize rt cfg ev ?w) = access_token_of (fst (loadSession rt ev s))"
      if "truthy (fst (loadSession rt ev s))"
      using that authorize_cached [of rt ev ?w cfg] by (simp add: load)
    moreover have "authorize rt cfg ev ?w =
        full_authorization rt cfg ev
          ((snd (loadSession rt ev ?w))\<lparr>session := fst (loadSession rt ev s)\<rparr>)"
      if "\<not> truthy (fst (loadSession rt ev s))"
      using that authorize_full [of rt ev ?w cfg] by (simp add: load)
    ultimately show ?thesis using eq by simp
  qed
  show ?thesis
    using refresh_session_failure_reasons [of s ev rt] after by blast
qed

text \<open>
  Claim C3 as stated fails. The held and persisted session expires in 299 seconds and the
  token endpoint refuses the refresh: \<^verbatim>\<open>getAccessToken\<close> returns the access token
  that was held before, and the only network event of the call is the refused refresh
  request: no listener, no browser, no code exchange, so no full authorization and no
  fresh token.
\<close>

theorem failed_refresh_returns_held_token:
  "access_token_of (session held_state) = Inr (JStr ''at-1'')
   \<and> get (session held_state) ''expiresAt'' = Inr (JNum (now_check near_expiry_env + 299000))
   \<and> refresh near_expiry_env = Response False ''invalid_grant'' None
   \<and> fst (getAccessToken test_runtime test_config near_expiry_env held_state)
      = Inr (JStr ''at-1'')
   \<and> filter is_network (new_events held_state
        (snd (getAccessToken test_runtime test_config near_expiry_env held_state)))
      = [Fetch ''POST'' (JStr ''https://mcp.example.com/token'')
           [(''grant_type'', JStr ''refresh_token''), (''refresh_token'', JStr ''rt-1''),
            (''client_id'', JStr ''client-1'')]]"
  by (simp add: op_defs test_defs held_state_def near_expiry_env_def)

theorem refresh_failure_falls_back_witness:
  "fst (refresh_session test_runtime near_expiry_env held_state)
      = Inl (Error ''Token refresh failed: invalid_grant'')
   \<and> getAccessToken test_runtime test_config near_expiry_env held_state
      = authorize test_runtime test_config near_expiry_env
          (logger LWarn ''Token refresh failed, re-authorizing:''
             (snd (refresh_session test_runtime near_expiry_env held_state)))
   \<and> fst (getAccessToken test_runtime test_config near_expiry_env held_state)
      = Inr (JStr ''at-1'')"
proof -
  have s: "truthy (session held_state)"
    "get (session held_state) ''expiresAt'' = Inr (JNum 1003605000)"
    by (simp_all add: held_state_def test_session_def)
  have d: "refresh_due test_runtime (now_check near_expiry_env) (JNum 1003605000)"
    by (simp add: refresh_due_number near_expiry_env_def test_env_def)
  have f: "fst (refresh_session test_runtime near_expiry_env held_state)
      = Inl (Error ''Token refresh failed: invalid_grant'')"
    by (simp add: op_defs test_defs held_state_def near_expiry_env_def)
  have l: "fst (loadSession test_runtime near_expiry_env held_state) = test_session"
    by (simp add: op_defs test_defs held_state_def near_expiry_env_def)
  have t: "access_token_of test_session = Inr (JStr ''at-1'')" "truthy test_session"
    by (simp_all add: access_token_of_def test_session_def test_tokens_def)
  note inst = refresh_failure_falls_back [OF s d, of test_config]
  from inst f have step:
    "getAccessToken test_runtime test_config near_expiry_env held_state
       = authorize test_runtime test_config near_expiry_env
           (logger LWarn ''Token refresh failed, re-authorizing:''
              (snd (refresh_session test_runtime near_expiry_env held_state)))
     \<and> (truthy (fst (loadSession test_runtime near_expiry_env held_state)) \<longrightarrow>
          fst (getAccessToken test_runtime test_config near_expiry_env held_state)
            = access_token_of (fst (loadSession test_runtime near_expiry_env held_state)))"
    by blast
  from step [THEN conjunct2] l t
  have "fst (getAccessToken test_runtime test_config near_expiry_env held_state)
      = Inr (JStr ''at-1'')"
    by simp
  with f step [THEN conjunct1] show ?thesis by blast
qed

subsection \<open>The callback listener after a timeout\<close>

lemma get_error: "get v k = Inl e \<Longrightarrow> e = TypeError"
  by (cases v) auto

lemma access_token_of_error: "access_token_of v = Inl e \<Longrightarrow> e = TypeError"
  by (auto simp add: access_token_of_def split: sum.splits dest: get_error)

lemma discoverMetadata_error:
  "fst (discoverMetadata rt cfg ev s) = Inl e \<Longrightarrow> e = TypeError"
  by (cases "url_origin rt (serverUrl cfg)"; cases "discovery ev")
     (auto simp add: discoverMetadata_def getAuthBaseUrl_def use_defaults_def Let_def
        split: if_splits option.splits)

lemma performAuthorizationFlow_timeout_case:
  assumes "callback ev = Timeout"
  shows "(case fst (performAuthorizationFlow rt cfg ev md clientInfo s) of
            Inr tokens \<Rightarrow> False
          | Inl e \<Rightarrow>
              e = Error ''Authorization timeout''
                \<longrightarrow> listening (snd (performAuthorizationFlow rt cfg ev md clientInfo s)))"
  using assms
  by (auto simp add: performAuthorizationFlow_def Let_def case_prod_beta
        split: sum.split dest: get_error)

lemma performAuthorizationFlow_timeout:
  assumes "callback ev = Timeout"
  shows "\<exists>e. fst (performAuthorizationFlow rt cfg ev md clientInfo s) = Inl e"
    and "fst (performAuthorizationFlow rt cfg ev md clientInfo s)
           = Inl (Error ''Authorization timeout'')
         \<Longrightarrow> listening (snd (performAuthorizationFlow rt cfg ev md clientInfo s))"
  using performAuthorizationFlow_timeout_case [OF assms, of rt cfg md clientInfo s]
  by (auto split: sum.splits)

lemma obtain_session_timeout:
  assumes "callback ev = Timeout"
  shows "obtain_session rt cfg ev md clientInfo s
     = performAuthorizationFlow rt cfg ev md clientInfo s"
proof -
  obtain e where "fst (performAuthorizationFlow rt cfg ev md clientInfo s) = Inl e"
    using performAuthorizationFlow_timeout(1) [OF assms] by blast
  then show ?thesis
    by (cases "performAuthorizationFlow rt cfg ev md clientInfo s")
       (simp add: obtain_session_def)
qed

lemma full_authorization_timeout:
  assumes "callback ev = Timeout"
    and "fst (full_authorization rt cfg ev s) = Inl (Error ''Authorization timeout'')"
  shows "listening (snd (full_authorization rt cfg ev s))"
proof (cases "fst (discoverMetadata rt cfg ev s)")
  case (Inl e)
  then have "fst (full_authorization rt cfg ev s) = Inl TypeError"
    using discoverMetadata_error [OF Inl]
    by (simp add: full_authorization_def case_prod_beta)
  with assms(2) show ?thesis by simp
next
  case (Inr md)
  let ?s1 = "snd (discoverMetadata rt cfg ev s)"
  show ?thesis
  proof (cases "truthy (staticClientInfo cfg)")
    case True
    then have "full_authorization rt cfg ev s
        = performAuthorizationFlow rt cfg ev md (staticClientInfo cfg) ?s1"
      using Inr by (simp add: full_authorization_def case_prod_beta
          obtain_session_timeout [OF assms(1)])
    with assms(2) show ?thesis
      using performAuthorizationFlow_timeout(2) [OF assms(1)] by simp
  next
    case False
    show ?thesis
    proof (cases "fst (registerClient cfg ev md ?s1)")
      case (Inl e)
      then have "fst (full_authorization rt cfg ev s)
          = Inl (Error ''OAuth client registration failed and no static client info provided'')"
        using Inr False by (simp add: full_authorization_def case_prod_beta)
      with assms(2) show ?thesis by simp
    next
      case (Inr clientInfo)
      then have "full_authorization rt cfg ev s
          = performAuthorizationFlow rt cfg ev md clientInfo
              (snd (registerClient cfg ev md ?s1))"
        using \<open>fst (discoverMetadata rt cfg ev s) = Inr md\<close> False
        by (simp add: full_authorization_def case_prod_beta
            obtain_session_timeout [OF assms(1)])
      with assms(2) show ?thesis
        using performAuthorizationFlow_timeout(2) [OF assms(1)] by simp
    qed
  qed
qed

lemma authorize_timeout:
  assumes "callback ev = Timeout"
    and "fst (authorize rt cfg ev s) = Inl (Error ''Authorization timeout'')"
  shows "listening (snd (authorize rt cfg ev s))"
proof (cases "truthy (fst (loadSession rt ev s))")
  case True
  then have "fst (authorize rt cfg ev s) = access_token_of (fst (loadSession rt ev s))"
    by (simp add: authorize_cached)
  with assms(2) show ?thesis
    using access_token_of_error by fastforce
next
  case False
  then show ?thesis
    using assms full_authorization_timeout [OF assms(1)] by (simp add: authorize_full)
qed

lemma exchange_code_listening:
  "listening (snd (exchange_code cfg ev endpoint client_id code verifier s)) = listening s"
  by (simp add: exchange_code_def Let_def split: fetch_result.split option.split)

lemma performAuthorizationFlow_request:
  assumes "callback ev = Request code err" "\<not> listening s"
  shows "\<not> listening (snd (performAuthorizationFlow rt cfg ev md clientInfo s))"
  using assms
  by (simp add: performAuthorizationFlow_def Let_def case_prod_beta
        exchange_code_listening close_server_def
        split: sum.split)

text \<open>
  Claim C2. When no request reaches the listener, \<^verbatim>\<open>authorize\<close> fails with
  \<^verbatim>\<open>Authorization timeout\<close>: that part holds. The teardown does not: the server is
  closed by the handler of \<^verbatim>\<open>/callback\<close> only, so after a request (code, error or
  neither) the port is released, 1000 ms later, but after the timeout the listener still
  holds the port. The run of the witness shows the timeout error, the listener still bound and
  no close of the server among the events.
\<close>

theorem timeout_keeps_listener:
  "(callback ev = Timeout \<longrightarrow>
      fst (authorize rt cfg ev s) = Inl (Error ''Authorization timeout'') \<longrightarrow>
      listening (snd (authorize rt cfg ev s)))
   \<and> (\<forall>code err. callback ev = Request code err \<longrightarrow> \<not> listening s \<longrightarrow>
        \<not> listening (snd (performAuthorizationFlow rt cfg ev md clientInfo s)))"
  using authorize_timeout [of ev rt cfg s]
    performAuthorizationFlow_request [of ev _ _ s rt cfg md clientInfo]
  by blast

theorem timeout_keeps_listener_witness:
  "fst (authorize test_runtime test_config timeout_env fresh_state)
     = Inl (Error ''Authorization timeout'')
   \<and> listening (snd (authorize test_runtime test_config timeout_env fresh_state))
   \<and> CloseServer \<notin> set (trace (snd (authorize test_runtime test_config timeout_env fresh_state)))
   \<and> \<not> listening (snd (performAuthorizationFlow test_runtime test_config
          (test_env\<lparr>callback := Request None (Some ''access_denied'')\<rparr>)
          (default_metadata ''https://mcp.example.com'')
          (JObj [(''client_id'', JStr ''client-1'')]) fresh_state))"
proof -
  have t: "callback timeout_env = Timeout"
    by (simp add: timeout_env_def)
  have e: "fst (authorize test_runtime test_config timeout_env fresh_state)
      = Inl (Error ''Authorization timeout'')"
    by (simp add: op_defs test_defs timeout_env_def)
  have l: "listening (snd (authorize test_runtime test_config timeout_env fresh_state))"
    using timeout_keeps_listener [of timeout_env test_runtime test_config fresh_state] t e
    by blast
  have c: "CloseServer \<notin> set (trace (snd (authorize test_runtime test_config timeout_env
      fresh_state)))"
    by (simp add: op_defs test_defs timeout_env_def)
  have r: "callback (test_env\<lparr>callback := Request None (Some ''access_denied'')\<rparr>)
      = Request None (Some ''access_denied'')"
    by simp
  have f: "\<not> listening fresh_state" by (simp add: fresh_state_def)
  have d: "\<not> listening (snd (performAuthorizationFlow test_runtime test_config
          (test_env\<lparr>callback := Request None (Some ''access_denied'')\<rparr>)
          (default_metadata ''https://mcp.example.com'')
          (JObj [(''client_id'', JStr ''client-1'')]) fresh_state))"
    using timeout_keeps_listener [of "test_env\<lparr>callback := Request None (Some ''access_denied'')\<rparr>"
        test_runtime test_config fresh_state] r f
    by blast
  from e l c d show ?thesis by blast
qed

end
